theory Spec2Isabelle
  imports Main "HOL-Library.Sublist" "HOL-Library.AList"
begin

section \<open>Python values used by the translation service\<close>

text \<open>
  A Python \<open>str\<close> is a sequence of Unicode code points. The mapping tables of
  \<open>AYUSHTranslator\<close> hold Devanagari, Tamil and Arabic-script keys, so a string is
  modelled as the list of its code points; \<open>ascii\<close> embeds a plain ASCII literal.
\<close>

type_synonym pystr = "nat list"

definition ascii :: "string \<Rightarrow> pystr" where
  "ascii s = map of_char s"

text \<open>
  \<open>str.isspace\<close> on one code point: the code points that CPython 3 treats as
  whitespace (bidirectional class WS, B or S, or category Zs).
\<close>

definition isspace :: "nat \<Rightarrow> bool" where
  "isspace c =
     ((0x9 \<le> c \<and> c \<le> 0xD) \<or> (0x1C \<le> c \<and> c \<le> 0x20) \<or> c = 0x85 \<or> c = 0xA0 \<or>
      c = 0x1680 \<or> (0x2000 \<le> c \<and> c \<le> 0x200A) \<or> c = 0x2028 \<or> c = 0x2029 \<or>
      c = 0x202F \<or> c = 0x205F \<or> c = 0x3000)"

text \<open>\<open>s.strip()\<close>: leading and trailing whitespace removed.\<close>

definition strip :: "pystr \<Rightarrow> pystr" where
  "strip s = rev (dropWhile isspace (rev (dropWhile isspace s)))"

text \<open>
  \<open>str.lower\<close> depends on the Unicode case tables, which are not part of the
  repository: every operation below takes it as the parameter \<open>lower\<close>, and the
  general theorems hold for any such function. \<open>ascii_lower\<close> is the instance used
  for evaluation on concrete inputs: it folds \<open>A\<close>..\<open>Z\<close> and leaves every other code
  point alone, which is what \<open>str.lower\<close> does on strings made of ASCII, Devanagari,
  Tamil and Arabic-script code points (all table keys and all inputs evaluated here).
\<close>

definition ascii_lower :: "pystr \<Rightarrow> pystr" where
  "ascii_lower s = map (\<lambda>c. if 0x41 \<le> c \<and> c \<le> 0x5A then c + 0x20 else c) s"

text \<open>\<open>a in b\<close> on strings: \<open>a\<close> occurs in \<open>b\<close> as a contiguous run.\<close>

fun str_in :: "pystr \<Rightarrow> pystr \<Rightarrow> bool" where
  "str_in a [] = (a = [])"
| "str_in a (y # ys) = (prefix a (y # ys) \<or> str_in a ys)"

subsection \<open>Dictionaries\<close>

text \<open>
  A \<open>dict\<close> keeps its keys in insertion order, and the loops of the translator
  return at the first key that matches, so a dictionary is an association list in
  that order. \<open>d[k] = v\<close> overwrites the value of a present key in place and appends
  an absent one; a dictionary display inserts its items from left to right.
\<close>

type_synonym py_dict = "(pystr \<times> pystr) list"

definition dict_setitem :: "py_dict \<Rightarrow> pystr \<Rightarrow> pystr \<Rightarrow> py_dict" where
  "dict_setitem d k v = AList.update k v d"

definition dict_display :: "(pystr \<times> pystr) list \<Rightarrow> py_dict" where
  "dict_display items = foldl (\<lambda>d (k, v). dict_setitem d k v) [] items"

text \<open>
  \<open>for key, value in d.items(): if P(key): return value\<close>: the first item, in
  insertion order, whose key satisfies the test.
\<close>

fun first_item :: "(pystr \<Rightarrow> bool) \<Rightarrow> py_dict \<Rightarrow> (pystr \<times> pystr) option" where
  "first_item P [] = None"
| "first_item P ((key, val) # rest) = (if P key then Some (key, val) else first_item P rest)"

subsection \<open>The module logger\<close>

text \<open>
  The module binds \<open>logger = logging.getLogger(__name__)\<close>, a standard-library
  \<open>logging.Logger\<close>. Its method is
  \<^verbatim>\<open>
  def info(self, msg, *args, **kwargs):
      if self.isEnabledFor(INFO):
          self._log(INFO, msg, args, **kwargs)
  \<close>
  and \<open>_log(self, level, msg, args, exc_info=None, extra=None, stack_info=False,
  stacklevel=1)\<close> accepts no other keyword: a call with any other keyword argument
  raises \<open>TypeError\<close> before a record is made. Whether the logger is enabled for
  \<open>INFO\<close> is configuration outside the module, kept in the logger's state together
  with the messages it has recorded.
\<close>

datatype py_error = TypeError

record py_logger =
  info_enabled :: bool
  recorded :: "string list"

definition Logger_log :: "string \<Rightarrow> (string \<times> pystr) list \<Rightarrow> py_logger \<Rightarrow> (py_error + unit) \<times> py_logger" where
  "Logger_log msg kwargs lg =
     (if list_all (\<lambda>(name, _). name \<in> set [''exc_info'', ''extra'', ''stack_info'', ''stacklevel'']) kwargs
      then (Inr (), lg\<lparr>recorded := recorded lg @ [msg]\<rparr>)
      else (Inl TypeError, lg))"

definition logger_info :: "string \<Rightarrow> (string \<times> pystr) list \<Rightarrow> py_logger \<Rightarrow> (py_error + unit) \<times> py_logger" where
  "logger_info msg kwargs lg =
     (if info_enabled lg then Logger_log msg kwargs lg else (Inr (), lg))"

section \<open>AYUSHTranslator\<close>

subsection \<open>The mapping tables built by \<open>__init__\<close>\<close>

text \<open>
  The three dictionary displays of \<open>__init__\<close>, item by item in the order of the source.
  Keys in Devanagari, Tamil and Arabic script are written as their code points. The
  display of \<open>condition_mapping\<close> writes two keys twice, with the same value each time
  (the keys of \<open>Skin Disease\<close> and of \<open>Insomnia\<close>, in the Ayurvedic and again in the
  homeopathy block), so its 94 items make a dictionary of 92 keys.
\<close>

definition condition_mapping_literal :: "(pystr \<times> pystr) list" where
  "condition_mapping_literal = [
    ([0x936, 0x93F, 0x930, 0x903, 0x936, 0x942, 0x932], ascii ''Headache''),
    ([0x936, 0x940, 0x930, 0x94D, 0x937, 0x935, 0x947, 0x926, 0x928, 0x93E], ascii ''Head Pain''),
    ([0x905, 0x91C, 0x940, 0x930, 0x94D, 0x923], ascii ''Indigestion''),
    ([0x905, 0x917, 0x94D, 0x928, 0x93F, 0x92E, 0x93E, 0x902, 0x926, 0x94D, 0x92F], ascii ''Digestive Weakness''),
    ([0x91C, 0x94D, 0x935, 0x930], ascii ''Fever''),
    ([0x938, 0x928, 0x94D, 0x927, 0x93F, 0x935, 0x93E, 0x924], ascii ''Arthritis''),
    ([0x905, 0x938, 0x94D, 0x925, 0x93F, 0x938, 0x902, 0x927, 0x93F, 0x20, 0x935, 0x947, 0x926, 0x928, 0x93E], ascii ''Bone and Joint Pain''),
    ([0x938, 0x902, 0x927, 0x93F, 0x936, 0x942, 0x932], ascii ''Joint Pain''),
    ([0x915, 0x91F, 0x93F, 0x936, 0x942, 0x932], ascii ''Back Pain''),
    ([0x915, 0x91F, 0x93F, 0x935, 0x947, 0x926, 0x928, 0x93E], ascii ''Lower Back Pain''),
    ([0x905, 0x930, 0x94D, 0x936], ascii ''Hemorrhoids''),
    ([0x92A, 0x93E, 0x907, 0x932, 0x94D, 0x938], ascii ''Piles''),
    ([0x915, 0x93E, 0x938], ascii ''Cough''),
    ([0x936, 0x94D, 0x935, 0x93E, 0x938], ascii ''Asthma''),
    ([0x936, 0x94D, 0x935, 0x938, 0x928, 0x20, 0x930, 0x94B, 0x917], ascii ''Respiratory Disorder''),
    ([0x928, 0x93E, 0x938, 0x93E, 0x935, 0x947, 0x917], ascii ''Allergic Rhinitis''),
    ([0x928, 0x93E, 0x915, 0x20, 0x92C, 0x939, 0x928, 0x93E], ascii ''Runny Nose''),
    ([0x905, 0x924, 0x93F, 0x938, 0x93E, 0x930], ascii ''Diarrhea''),
    ([0x917, 0x941, 0x926, 0x935, 0x94D, 0x930, 0x923], ascii ''Anal Fissure''),
    ([0x92E, 0x941, 0x902, 0x939, 0x93E, 0x938, 0x947], ascii ''Acne''),
    ([0x924, 0x94D, 0x935, 0x91A, 0x93E, 0x20, 0x930, 0x94B, 0x917], ascii ''Skin Disease''),
    ([0x916, 0x93E, 0x91C], ascii ''Itching''),
    ([0x926, 0x93E, 0x926], ascii ''Ringworm''),
    ([0x90F, 0x915, 0x94D, 0x91C, 0x93F, 0x92E, 0x93E], ascii ''Eczema''),
    ([0x92C, 0x935, 0x93E, 0x938, 0x940, 0x930], ascii ''Hemorrhoids''),
    ([0x905, 0x928, 0x93F, 0x926, 0x94D, 0x930, 0x93E], ascii ''Insomnia''),
    ([0x928, 0x93F, 0x926, 0x94D, 0x930, 0x93E, 0x928, 0x93E, 0x936], ascii ''Sleep Disorder''),
    ([0x92E, 0x93E, 0x928, 0x938, 0x93F, 0x915, 0x20, 0x924, 0x928, 0x93E, 0x935], ascii ''Mental Stress''),
    ([0x91A, 0x93F, 0x902, 0x924, 0x93E], ascii ''Anxiety''),
    ([0x905, 0x935, 0x938, 0x93E, 0x926], ascii ''Depression''),
    ([0x938, 0x94D, 0x92E, 0x943, 0x924, 0x93F, 0x20, 0x939, 0x93E, 0x928, 0x93F], ascii ''Memory Loss''),
    ([0x92E, 0x927, 0x941, 0x92E, 0x947, 0x939], ascii ''Diabetes''),
    ([0x92A, 0x94D, 0x930, 0x92E, 0x947, 0x939], ascii ''Diabetes Mellitus''),
    ([0x930, 0x915, 0x94D, 0x924, 0x91A, 0x93E, 0x92A], ascii ''Hypertension''),
    ([0x909, 0x91A, 0x94D, 0x91A, 0x20, 0x930, 0x915, 0x94D, 0x924, 0x91A, 0x93E, 0x92A], ascii ''High Blood Pressure''),
    ([0x939, 0x943, 0x926, 0x92F, 0x20, 0x930, 0x94B, 0x917], ascii ''Heart Disease''),
    ([0x939, 0x943, 0x926, 0x92F, 0x93E, 0x918, 0x93E, 0x924], ascii ''Heart Attack''),
    ([0x938, 0x94D, 0x924, 0x94D, 0x930, 0x940, 0x20, 0x930, 0x94B, 0x917], ascii ''Gynecological Disorder''),
    ([0x92E, 0x93E, 0x938, 0x93F, 0x915, 0x20, 0x927, 0x930, 0x94D, 0x92E, 0x20, 0x935, 0x93F, 0x915, 0x93E, 0x930], ascii ''Menstrual Disorder''),
    ([0x92C, 0x93E, 0x902, 0x91D, 0x92A, 0x928], ascii ''Infertility''),
    ([0x917, 0x930, 0x94D, 0x92D, 0x927, 0x93E, 0x930, 0x923, 0x20, 0x938, 0x92E, 0x938, 0x94D, 0x92F, 0x93E], ascii ''Pregnancy Complications''),
    ([0x92C, 0x93E, 0x932, 0x20, 0x930, 0x94B, 0x917], ascii ''Pediatric Disorder''),
    ([0x92C, 0x91A, 0x94D, 0x91A, 0x94B, 0x902, 0x20, 0x915, 0x940, 0x20, 0x92C, 0x940, 0x92E, 0x93E, 0x930, 0x940], ascii ''Childhood Illness''),
    ([0x935, 0x943, 0x926, 0x94D, 0x927, 0x93E, 0x935, 0x938, 0x94D, 0x925, 0x93E, 0x20, 0x930, 0x94B, 0x917], ascii ''Geriatric Disorder''),
    ([0x92C, 0x941, 0x922, 0x93C, 0x93E, 0x92A, 0x947, 0x20, 0x915, 0x940, 0x20, 0x92C, 0x940, 0x92E, 0x93E, 0x930, 0x940], ascii ''Age-related Disease''),
    ([0xBB5, 0xBB2, 0xBBF], ascii ''Pain''),
    ([0xB95, 0xBBE, 0xBAF, 0xBCD, 0xB9A, 0xBCD, 0xB9A, 0xBB2, 0xBCD], ascii ''Fever''),
    ([0xB87, 0xBB0, 0xBC1, 0xBAE, 0xBB2, 0xBCD], ascii ''Cough''),
    ([0xBAE, 0xBC2, 0xB9A, 0xBCD, 0xB9A, 0xBC1, 0xBA4, 0xBCD, 0xBA4, 0xBBF, 0xBA3, 0xBB1, 0xBB2, 0xBCD], ascii ''Breathing Difficulty''),
    ([0xBB5, 0xBAF, 0xBBF, 0xBB1, 0xBCD, 0xBB1, 0xBC1, 0xBAA, 0xBCD, 0xBAA, 0xBCB, 0xB95, 0xBCD, 0xB95, 0xBC1], ascii ''Diarrhea''),
    ([0xB95, 0xBB2, 0xBCD, 0xBB2, 0xBC0, 0xBB0, 0xBB2, 0xBCD, 0x20, 0xBA8, 0xBCB, 0xBAF, 0xBCD], ascii ''Liver Disease''),
    ([0xB9A, 0xBBF, 0xBB1, 0xBC1, 0xBA8, 0xBC0, 0xBB0, 0xBCD, 0xBAA, 0xBCD, 0xBAA, 0xBC8, 0x20, 0xBA8, 0xBCB, 0xBAF, 0xBCD], ascii ''Bladder Disease''),
    ([0xBA8, 0xBC0, 0xBB0, 0xBBF, 0xBB4, 0xBBF, 0xBB5, 0xBC1, 0x20, 0xBA8, 0xBCB, 0xBAF, 0xBCD], ascii ''Diabetes''),
    ([0x633, 0x631, 0x62F, 0x20, 0x648, 0x20, 0x628, 0x644, 0x63A, 0x645], ascii ''Cold and Phlegm''),
    ([0x62D, 0x631, 0x627, 0x631, 0x62A], ascii ''Heat/Fever''),
    ([0x633, 0x639, 0x627, 0x644], ascii ''Cough''),
    ([0x632, 0x6A9, 0x627, 0x645], ascii ''Cold''),
    ([0x627, 0x633, 0x6C1, 0x627, 0x644], ascii ''Diarrhea''),
    ([0x642, 0x626], ascii ''Nausea''),
    ([0x62F, 0x645, 0x648, 0x6CC], ascii ''Bloody''),
    ([0x633, 0x641, 0x6CC, 0x62F], ascii ''White Discharge''),
    ([0x938, 0x93F, 0x930, 0x20, 0x926, 0x930, 0x94D, 0x926], ascii ''Headache''),
    ([0x92A, 0x947, 0x91F, 0x20, 0x926, 0x930, 0x94D, 0x926], ascii ''Abdominal Pain''),
    ([0x92C, 0x941, 0x916, 0x93E, 0x930], ascii ''Fever''),
    ([0x916, 0x93E, 0x902, 0x938, 0x940], ascii ''Cough''),
    ([0x926, 0x938, 0x94D, 0x924], ascii ''Diarrhea''),
    ([0x90F, 0x932, 0x930, 0x94D, 0x91C, 0x940], ascii ''Allergy''),
    ([0x924, 0x94D, 0x935, 0x91A, 0x93E, 0x20, 0x930, 0x94B, 0x917], ascii ''Skin Disease''),
    ([0x905, 0x928, 0x93F, 0x926, 0x94D, 0x930, 0x93E], ascii ''Insomnia''),
    ([0x92E, 0x93E, 0x907, 0x917, 0x94D, 0x930, 0x947, 0x928], ascii ''Migraine''),
    ([0x91F, 0x940, 0x20, 0x92C, 0x940], ascii ''Tuberculosis''),
    ([0x915, 0x948, 0x902, 0x938, 0x930], ascii ''Cancer''),
    ([0x90F, 0x921, 0x94D, 0x938], ascii ''AIDS''),
    ([0x92E, 0x932, 0x947, 0x930, 0x93F, 0x92F, 0x93E], ascii ''Malaria''),
    ([0x921, 0x947, 0x902, 0x917, 0x942], ascii ''Dengue''),
    ([0x91A, 0x93F, 0x915, 0x928, 0x917, 0x941, 0x928, 0x93F, 0x92F, 0x93E], ascii ''Chikungunya''),
    ([0x915, 0x94B, 0x935, 0x93F, 0x921], ascii ''COVID-19''),
    ([0x915, 0x94B, 0x930, 0x94B, 0x928, 0x93E], ascii ''Coronavirus''),
    (ascii ''headache'', ascii ''Headache''),
    (ascii ''fever'', ascii ''Fever''),
    (ascii ''cough'', ascii ''Cough''),
    (ascii ''cold'', ascii ''Common Cold''),
    (ascii ''diarrhea'', ascii ''Diarrhea''),
    (ascii ''indigestion'', ascii ''Indigestion''),
    (ascii ''arthritis'', ascii ''Arthritis''),
    (ascii ''asthma'', ascii ''Asthma''),
    (ascii ''diabetes'', ascii ''Diabetes''),
    (ascii ''hypertension'', ascii ''Hypertension''),
    (ascii ''anxiety'', ascii ''Anxiety''),
    (ascii ''depression'', ascii ''Depression''),
    (ascii ''insomnia'', ascii ''Insomnia''),
    (ascii ''acne'', ascii ''Acne''),
    (ascii ''eczema'', ascii ''Eczema''),
    (ascii ''migraine'', ascii ''Migraine'')]"

definition system_type_mapping_literal :: "(pystr \<times> pystr) list" where
  "system_type_mapping_literal = [
    ([0x906, 0x92F, 0x941, 0x930, 0x94D, 0x935, 0x947, 0x926], ascii ''Ayurveda''),
    ([0x938, 0x93F, 0x926, 0x94D, 0x927], ascii ''Siddha''),
    ([0x92F, 0x942, 0x928, 0x93E, 0x928, 0x940], ascii ''Unani''),
    ([0x939, 0x94B, 0x92E, 0x94D, 0x92F, 0x94B, 0x92A, 0x948, 0x925, 0x940], ascii ''Homeopathy''),
    ([0xB86, 0xBAF, 0xBC1, 0xBB0, 0xBCD, 0xBB5, 0xBC7, 0xBA4, 0xBAE, 0xBCD], ascii ''Ayurveda''),
    ([0xB9A, 0xBBF, 0xBA4, 0xBCD, 0xBA4, 0x20, 0xBAE, 0xBB0, 0xBC1, 0xBA4, 0xBCD, 0xBA4, 0xBC1, 0xBB5, 0xBAE, 0xBCD], ascii ''Siddha''),
    ([0xBAF, 0xBC2, 0xBA9, 0xBBE, 0xBA9, 0xBBF, 0x20, 0xBAE, 0xBB0, 0xBC1, 0xBA4, 0xBCD, 0xBA4, 0xBC1, 0xBB5, 0xBAE, 0xBCD], ascii ''Unani''),
    ([0xBB9, 0xBCB, 0xBAE, 0xBBF, 0xBAF, 0xBCB, 0xBAA, 0xBA4, 0xBBF], ascii ''Homeopathy'')]"

definition severity_mapping_literal :: "(pystr \<times> pystr) list" where
  "severity_mapping_literal = [
    ([0x92E, 0x943, 0x926, 0x941], ascii ''Mild''),
    ([0x92E, 0x927, 0x94D, 0x92F, 0x92E], ascii ''Moderate''),
    ([0x924, 0x940, 0x935, 0x94D, 0x930], ascii ''Severe''),
    ([0x917, 0x902, 0x92D, 0x940, 0x930], ascii ''Critical''),
    ([0x939, 0x932, 0x94D, 0x915, 0x93E], ascii ''Mild''),
    ([0x92D, 0x93E, 0x930, 0x940], ascii ''Severe''),
    ([0x915, 0x941, 0x92A, 0x94B, 0x937, 0x923], ascii ''Malnutrition''),
    ([0x91C, 0x91F, 0x93F, 0x932], ascii ''Complicated'')]"

record AYUSHTranslator =
  condition_mapping :: py_dict
  system_type_mapping :: py_dict
  severity_mapping :: py_dict

definition AYUSHTranslator_init :: AYUSHTranslator where
  "AYUSHTranslator_init =
     \<lparr>condition_mapping = dict_display condition_mapping_literal,
      system_type_mapping = dict_display system_type_mapping_literal,
      severity_mapping = dict_display severity_mapping_literal\<rparr>"

text \<open>
  The state the methods run in: the translator instance (the module creates one global
  instance) and the module logger.
\<close>

record world =
  translator :: AYUSHTranslator
  logger :: py_logger

subsection \<open>The translate methods\<close>

text \<open>
  A method returns its value or the exception it raised, and the state it leaves.
  \<open>after_log\<close> continues after a \<open>logger.info\<close> call: an exception raised by the call
  propagates, otherwise the method goes on to its \<open>return\<close>.
\<close>

definition after_log :: "world \<Rightarrow> (py_error + unit) \<times> py_logger \<Rightarrow> 'a \<Rightarrow> (py_error + 'a) \<times> world" where
  "after_log w r ret =
     (case fst r of
        Inl e \<Rightarrow> (Inl e, w\<lparr>logger := snd r\<rparr>)
      | Inr u \<Rightarrow> (Inr ret, w\<lparr>logger := snd r\<rparr>))"

definition translate_condition :: "(pystr \<Rightarrow> pystr) \<Rightarrow> world \<Rightarrow> pystr \<Rightarrow> (py_error + pystr) \<times> world" where
  "translate_condition lower w condition_name =
     (if condition_name = [] then (Inr [], w)
      else
        let cleaned_name = strip condition_name;
            d = condition_mapping (translator w)
        in case map_of d cleaned_name of
             Some v \<Rightarrow> (Inr v, w)
           | None \<Rightarrow>
              (case first_item (\<lambda>key. lower key = lower cleaned_name) d of
                 Some (key, val) \<Rightarrow> (Inr val, w)
               | None \<Rightarrow>
                  (case first_item (\<lambda>key. str_in (lower key) (lower cleaned_name)
                                        \<or> str_in (lower cleaned_name) (lower key)) d of
                     Some (key, val) \<Rightarrow>
                       after_log w
                         (logger_info ''Partial match found for condition translation''
                            [(''original'', condition_name), (''matched'', key), (''translated'', val)]
                            (logger w))
                         val
                   | None \<Rightarrow>
                       after_log w
                         (logger_info ''No translation found for condition''
                            [(''original'', condition_name), (''action'', ascii ''keeping_original'')]
                            (logger w))
                         condition_name)))"

definition translate_system_type :: "(pystr \<Rightarrow> pystr) \<Rightarrow> world \<Rightarrow> pystr \<Rightarrow> (py_error + pystr) \<times> world" where
  "translate_system_type lower w system_type =
     (if system_type = [] then (Inr [], w)
      else
        let cleaned_type = strip system_type;
            d = system_type_mapping (translator w)
        in case map_of d cleaned_type of
             Some v \<Rightarrow> (Inr v, w)
           | None \<Rightarrow>
              (case first_item (\<lambda>key. lower key = lower cleaned_type) d of
                 Some (key, val) \<Rightarrow> (Inr val, w)
               | None \<Rightarrow> (Inr system_type, w)))"

definition translate_severity :: "(pystr \<Rightarrow> pystr) \<Rightarrow> world \<Rightarrow> pystr \<Rightarrow> (py_error + pystr) \<times> world" where
  "translate_severity lower w severity =
     (if severity = [] then (Inr [], w)
      else
        let cleaned_severity = strip severity;
            d = severity_mapping (translator w)
        in case map_of d cleaned_severity of
             Some v \<Rightarrow> (Inr v, w)
           | None \<Rightarrow>
              (case first_item (\<lambda>key. lower key = lower cleaned_severity) d of
                 Some (key, val) \<Rightarrow> (Inr val, w)
               | None \<Rightarrow> (Inr severity, w)))"

subsection \<open>Registering mappings\<close>

text \<open>
  Each \<open>add_*_mapping\<close> assigns into its dictionary and then calls \<open>logger.info\<close>
  with keyword arguments: the assignment has happened whatever the call does.
\<close>

definition add_condition_mapping :: "world \<Rightarrow> pystr \<Rightarrow> pystr \<Rightarrow> (py_error + unit) \<times> world" where
  "add_condition_mapping w native_term english_term =
     (let w1 = w\<lparr>translator := (translator w)
                 \<lparr>condition_mapping := dict_setitem (condition_mapping (translator w)) native_term english_term\<rparr>\<rparr>
      in after_log w1
           (logger_info ''Added new condition mapping''
              [(''native'', native_term), (''english'', english_term)] (logger w1))
           ())"

definition add_system_type_mapping :: "world \<Rightarrow> pystr \<Rightarrow> pystr \<Rightarrow> (py_error + unit) \<times> world" where
  "add_system_type_mapping w native_term english_term =
     (let w1 = w\<lparr>translator := (translator w)
                 \<lparr>system_type_mapping := dict_setitem (system_type_mapping (translator w)) native_term english_term\<rparr>\<rparr>
      in after_log w1
           (logger_info ''Added new system type mapping''
              [(''native'', native_term), (''english'', english_term)] (logger w1))
           ())"

definition add_severity_mapping :: "world \<Rightarrow> pystr \<Rightarrow> pystr \<Rightarrow> (py_error + unit) \<times> world" where
  "add_severity_mapping w native_term english_term =
     (let w1 = w\<lparr>translator := (translator w)
                 \<lparr>severity_mapping := dict_setitem (severity_mapping (translator w)) native_term english_term\<rparr>\<rparr>
      in after_log w1
           (logger_info ''Added new severity mapping''
              [(''native'', native_term), (''english'', english_term)] (logger w1))
           ())"

text \<open>
  The translator as \<open>__init__\<close> leaves it, with a logger that has recorded nothing
  and is enabled for \<open>INFO\<close> or not.
\<close>

definition init_world :: "bool \<Rightarrow> world" where
  "init_world enabled =
     \<lparr>translator = AYUSHTranslator_init,
      logger = \<lparr>info_enabled = enabled, recorded = []\<rparr>\<rparr>"

section \<open>EMR models\<close>

text \<open>
  The pydantic models of \<open>emr_models.py\<close>. A \<open>datetime\<close> is opaque to everything
  modelled here, so its type is the parameter \<open>'dt\<close>; \<open>now\<close> is the value that the
  default factory \<open>datetime.utcnow\<close> returns at construction. A constructor takes its
  required fields as they are and each field that has a default as an option, \<open>None\<close>
  when the keyword is not passed.
\<close>

record 'dt EMRPatient =
  patient_id :: pystr
  given_name :: "pystr option"
  family_name :: "pystr option"
  gender :: "pystr option"
  birth_date :: "'dt option"
  address :: "pystr option"
  phone_number :: "pystr option"
  created_at :: 'dt

definition EMRPatient_new ::
  "'dt \<Rightarrow> pystr \<Rightarrow> pystr option \<Rightarrow> pystr option \<Rightarrow> pystr option \<Rightarrow> 'dt option \<Rightarrow> pystr option
     \<Rightarrow> pystr option \<Rightarrow> 'dt option \<Rightarrow> 'dt EMRPatient" where
  "EMRPatient_new now pid given family gen birth addr phone created =
     \<lparr>patient_id = pid, given_name = given, family_name = family, gender = gen,
      birth_date = birth, address = addr, phone_number = phone,
      created_at = (case created of None \<Rightarrow> now | Some t \<Rightarrow> t)\<rparr>"

record 'dt EMRCondition =
  condition_id :: pystr
  patient_id :: pystr
  condition_name :: pystr
  icd_code :: "pystr option"
  tm2_code :: pystr
  system_type :: pystr
  severity :: pystr
  diagnosis_date :: 'dt
  practitioner_id :: pystr
  status :: pystr
  notes' :: "pystr option"
  created_at :: 'dt

definition EMRCondition_new ::
  "'dt \<Rightarrow> pystr \<Rightarrow> pystr \<Rightarrow> pystr \<Rightarrow> pystr option \<Rightarrow> pystr \<Rightarrow> pystr \<Rightarrow> pystr \<Rightarrow> 'dt \<Rightarrow> pystr
     \<Rightarrow> pystr option \<Rightarrow> pystr option \<Rightarrow> 'dt option \<Rightarrow> 'dt EMRCondition" where
  "EMRCondition_new now cid pid name icd tm2 sys sev ddate pract status_kw notes_kw created =
     \<lparr>condition_id = cid, patient_id = pid, condition_name = name, icd_code = icd,
      tm2_code = tm2, system_type = sys, severity = sev, diagnosis_date = ddate,
      practitioner_id = pract,
      status = (case status_kw of None \<Rightarrow> ascii ''active'' | Some s \<Rightarrow> s),
      notes' = notes_kw,
      created_at = (case created of None \<Rightarrow> now | Some t \<Rightarrow> t)\<rparr>"

text \<open>
  An observation inside an encounter is a \<open>Dict[str, Any]\<close>; its values are opaque
  here, so it is kept as a list of key and string pairs.
\<close>

record 'dt EMREncounter =
  encounter_id :: pystr
  patient_id :: pystr
  encounter_type :: pystr
  encounter_date :: 'dt
  practitioner_id :: pystr
  location :: "pystr option"
  conditions :: "pystr list"
  observations :: "(pystr \<times> pystr) list list"
  created_at :: 'dt

definition EMREncounter_new ::
  "'dt \<Rightarrow> pystr \<Rightarrow> pystr \<Rightarrow> pystr option \<Rightarrow> 'dt \<Rightarrow> pystr \<Rightarrow> pystr option \<Rightarrow> pystr list option
     \<Rightarrow> (pystr \<times> pystr) list list option \<Rightarrow> 'dt option \<Rightarrow> 'dt EMREncounter" where
  "EMREncounter_new now eid pid type_kw edate pract loc conds obs created =
     \<lparr>encounter_id = eid, patient_id = pid,
      encounter_type = (case type_kw of None \<Rightarrow> ascii ''traditional_medicine_consultation'' | Some t \<Rightarrow> t),
      encounter_date = edate, practitioner_id = pract, location = loc,
      conditions = (case conds of None \<Rightarrow> [] | Some cs \<Rightarrow> cs),
      observations = (case obs of None \<Rightarrow> [] | Some os \<Rightarrow> os),
      created_at = (case created of None \<Rightarrow> now | Some t \<Rightarrow> t)\<rparr>"

section \<open>The cleaning and conversion stages\<close>

text \<open>
  \<open>endpoints.py\<close> calls the ingestion service (\<open>_clean_and_summarize_data\<close>,
  \<open>_convert_to_emr\<close>) to clean rows and to build the EMR entities; the service itself is
  not among the modules embedded here. The definitions of this section follow the
  specification of the Record Validator and Cleaner and of the EMR Graph Builder; they
  call the translator and the model constructors above.
\<close>

text \<open>
  Modelled from the spec: the input row of the missing cleaning stage, seven raw
  strings. A missing field is the empty string.
\<close>

record RawRecord =
  raw_patient_id :: pystr
  raw_tm2_code :: pystr
  raw_condition_name :: pystr
  raw_system_type :: pystr
  raw_severity :: pystr
  raw_diagnosis_date :: pystr
  raw_practitioner_id :: pystr

text \<open>
  Modelled from the spec: the row that the missing cleaning stage produces, with
  trimmed strings, a parsed date and translated vocabulary terms.
\<close>

record 'dt CleanedRecord =
  cleaned_patient_id :: pystr
  cleaned_tm2_code :: pystr
  cleaned_condition_name :: pystr
  cleaned_system_type :: pystr
  cleaned_severity :: pystr
  cleaned_diagnosis_date :: 'dt
  cleaned_practitioner_id :: pystr

text \<open>Modelled from the spec: the two counters of the missing cleaning stage.\<close>

record CleaningStatistics =
  duplicates_removed :: nat
  invalid_records_removed :: nat

text \<open>
  Modelled from the spec: structural validation of the missing cleaning stage.
  \<open>patient_id\<close>, \<open>tm2_code\<close> and \<open>condition_name\<close> are non-blank and
  \<open>diagnosis_date\<close> parses; the date format is not specified, so the parser is the
  parameter \<open>parse_date\<close>. The result is the parsed date of a valid row.
\<close>

definition validate_record :: "(pystr \<Rightarrow> 'dt option) \<Rightarrow> RawRecord \<Rightarrow> 'dt option" where
  "validate_record parse_date r =
     (if strip (raw_patient_id r) = [] \<or> strip (raw_tm2_code r) = []
         \<or> strip (raw_condition_name r) = []
      then None
      else parse_date (raw_diagnosis_date r))"

text \<open>
  Modelled from the spec: the deduplication key of the missing cleaning stage,
  \<open>(patient_id, tm2_code, diagnosis_date, practitioner_id)\<close>.
\<close>

definition dedup_key :: "RawRecord \<Rightarrow> pystr \<times> pystr \<times> pystr \<times> pystr" where
  "dedup_key r = (raw_patient_id r, raw_tm2_code r, raw_diagnosis_date r, raw_practitioner_id r)"

text \<open>
  Modelled from the spec: one row through validation and deduplication of the missing
  cleaning stage. An invalid row is counted and left out; a row whose key equals the key
  of an earlier kept row is counted as a duplicate and left out, the first one stays.
\<close>

definition clean_step ::
  "(pystr \<Rightarrow> 'dt option) \<Rightarrow> (RawRecord \<times> 'dt) list \<times> CleaningStatistics \<Rightarrow> RawRecord
     \<Rightarrow> (RawRecord \<times> 'dt) list \<times> CleaningStatistics" where
  "clean_step parse_date acc r =
     (case acc of (kept, st) \<Rightarrow>
        (case validate_record parse_date r of
           None \<Rightarrow> (kept, st\<lparr>invalid_records_removed := invalid_records_removed st + 1\<rparr>)
         | Some d \<Rightarrow>
             if list_ex (\<lambda>(k, _). dedup_key k = dedup_key r) kept
             then (kept, st\<lparr>duplicates_removed := duplicates_removed st + 1\<rparr>)
             else (kept @ [(r, d)], st)))"

text \<open>
  Modelled from the spec: field normalization of the missing cleaning stage. Every
  string is trimmed, and \<open>condition_name\<close>, \<open>system_type\<close> and \<open>severity\<close> go through the
  translator; an exception of the translator propagates.
\<close>

definition normalize_record ::
  "(pystr \<Rightarrow> pystr) \<Rightarrow> world \<Rightarrow> RawRecord \<times> 'dt \<Rightarrow> (py_error + 'dt CleanedRecord) \<times> world" where
  "normalize_record lower w rd =
     (case rd of (r, d) \<Rightarrow>
        (case translate_condition lower w (strip (raw_condition_name r)) of
           (Inl e, w1) \<Rightarrow> (Inl e, w1)
         | (Inr name, w1) \<Rightarrow>
            (case translate_system_type lower w1 (strip (raw_system_type r)) of
               (Inl e, w2) \<Rightarrow> (Inl e, w2)
             | (Inr sys, w2) \<Rightarrow>
                (case translate_severity lower w2 (strip (raw_severity r)) of
                   (Inl e, w3) \<Rightarrow> (Inl e, w3)
                 | (Inr sev, w3) \<Rightarrow>
                     (Inr \<lparr>cleaned_patient_id = strip (raw_patient_id r),
                           cleaned_tm2_code = strip (raw_tm2_code r),
                           cleaned_condition_name = name,
                           cleaned_system_type = sys,
                           cleaned_severity = sev,
                           cleaned_diagnosis_date = d,
                           cleaned_practitioner_id = strip (raw_practitioner_id r)\<rparr>, w3)))))"

text \<open>
  Modelled from the spec: field normalization of the kept rows of the missing cleaning
  stage, in input order; the first exception ends the batch.
\<close>

fun normalize_records ::
  "(pystr \<Rightarrow> pystr) \<Rightarrow> world \<Rightarrow> (RawRecord \<times> 'dt) list \<Rightarrow> (py_error + 'dt CleanedRecord list) \<times> world" where
  "normalize_records lower w [] = (Inr [], w)"
| "normalize_records lower w (rd # rest) =
     (case normalize_record lower w rd of
        (Inl e, w1) \<Rightarrow> (Inl e, w1)
      | (Inr c, w1) \<Rightarrow>
         (case normalize_records lower w1 rest of
            (Inl e, w2) \<Rightarrow> (Inl e, w2)
          | (Inr cs, w2) \<Rightarrow> (Inr (c # cs), w2)))"

text \<open>
  Modelled from the spec: the missing operation
  \<open>clean(records) -> (sequence<CleanedRecord>, CleaningStatistics)\<close>.
\<close>

definition clean ::
  "(pystr \<Rightarrow> pystr) \<Rightarrow> (pystr \<Rightarrow> 'dt option) \<Rightarrow> world \<Rightarrow> RawRecord list
     \<Rightarrow> (py_error + 'dt CleanedRecord list \<times> CleaningStatistics) \<times> world" where
  "clean lower parse_date w records =
     (case foldl (clean_step parse_date)
             ([], \<lparr>duplicates_removed = 0, invalid_records_removed = 0\<rparr>) records of
        (kept, st) \<Rightarrow>
          (case normalize_records lower w kept of
             (Inl e, w1) \<Rightarrow> (Inl e, w1)
           | (Inr cs, w1) \<Rightarrow> (Inr (cs, st), w1)))"

text \<open>
  Modelled from the spec: patients and conditions of the missing operation
  \<open>convert(records)\<close>. A patient is created once for each distinct \<open>patient_id\<close>, in
  order of first appearance and without demographics; each cleaned record gives one
  condition. How \<open>condition_id\<close> is generated is left open by the specification, so
  the generator is the parameter \<open>new_condition_id\<close>.
\<close>

definition convert ::
  "'dt \<Rightarrow> ('dt CleanedRecord \<Rightarrow> pystr) \<Rightarrow> 'dt CleanedRecord list
     \<Rightarrow> 'dt EMRPatient list \<times> 'dt EMRCondition list" where
  "convert now new_condition_id records =
     (foldl (\<lambda>ps r.
               if list_ex (\<lambda>p. EMRPatient.patient_id p = cleaned_patient_id r) ps then ps
               else ps @ [EMRPatient_new now (cleaned_patient_id r) None None None None None None None])
        [] records,
      map (\<lambda>r. EMRCondition_new now (new_condition_id r) (cleaned_patient_id r)
                  (cleaned_condition_name r) None (cleaned_tm2_code r) (cleaned_system_type r)
                  (cleaned_severity r) (cleaned_diagnosis_date r) (cleaned_practitioner_id r)
                  None None None)
        records)"

text \<open>
  Modelled from the spec: the missing orchestration of one batch, cleaning followed by
  conversion.
\<close>

definition run_batch ::
  "(pystr \<Rightarrow> pystr) \<Rightarrow> (pystr \<Rightarrow> 'dt option) \<Rightarrow> 'dt \<Rightarrow> ('dt CleanedRecord \<Rightarrow> pystr) \<Rightarrow> world
     \<Rightarrow> RawRecord list
     \<Rightarrow> (py_error + ('dt EMRPatient list \<times> 'dt EMRCondition list) \<times> CleaningStatistics) \<times> world" where
  "run_batch lower parse_date now new_condition_id w records =
     (case clean lower parse_date w records of
        (Inl e, w1) \<Rightarrow> (Inl e, w1)
      | (Inr (cs, st), w1) \<Rightarrow> (Inr (convert now new_condition_id cs, st), w1))"

text \<open>
  Modelled from the spec: the row of the end-to-end scenario, with its three terms in
  Devanagari as code points.
\<close>

definition scenario_row :: RawRecord where
  "scenario_row =
     \<lparr>raw_patient_id = ascii ''PAT001'',
      raw_tm2_code = ascii ''TM2.A01.01'',
      raw_condition_name = [0x905, 0x928, 0x93F, 0x926, 0x94D, 0x930, 0x93E],
      raw_system_type = [0x906, 0x92F, 0x941, 0x930, 0x94D, 0x935, 0x947, 0x926],
      raw_severity = [0x92E, 0x927, 0x94D, 0x92F, 0x92E],
      raw_diagnosis_date = ascii ''2024-01-15'',
      raw_practitioner_id = ascii ''DOC123''\<rparr>"

section \<open>Properties\<close>

subsection \<open>Strings and dictionaries\<close>

text \<open>\<open>str_in\<close> is the contiguous-sublist relation of the list library.\<close>

lemma str_in_sublist: "str_in a b = sublist a b"
  by (induction b) (auto simp: sublist_Cons_right)

text \<open>
  Assignment into a dictionary: the key is bound to the new value, and the items with
  other keys stay as they are and where they are.
\<close>

lemma dict_setitem_lookup: "map_of (dict_setitem d k v) k = Some v"
  by (simp add: dict_setitem_def update_conv')

lemma dict_setitem_others:
  "filter (\<lambda>(k', v'). k' \<noteq> k) (dict_setitem d k v) = filter (\<lambda>(k', v'). k' \<noteq> k) d"
  by (induction d) (auto simp: dict_setitem_def)

text \<open>
  A display holds, for each key, the last value written for it, and its keys come in the
  order in which they first appear. Both facts let a lookup and a loop over a displayed
  table be computed on the list of items as written.
\<close>

lemma dict_display_snoc: "dict_display (L @ [(k, v)]) = dict_setitem (dict_display L) k v"
  by (simp add: dict_display_def)

lemma map_of_dict_display:
  "map_of (dict_display L) k = foldl (\<lambda>acc (k', v). if k' = k then Some v else acc) None L"
proof (induction L rule: rev_induct)
  case Nil
  show ?case by (simp add: dict_display_def)
next
  case (snoc x xs)
  obtain k' v where x: "x = (k', v)" by (cases x)
  show ?case
    using snoc by (simp add: x dict_display_snoc dict_setitem_def update_conv')
qed

lemma first_item_find:
  "first_item P d = map_option (\<lambda>k. (k, the (map_of d k))) (find P (map fst d))"
proof (induction P d rule: first_item.induct)
  case (1 P)
  show ?case by simp
next
  case (2 P key val rest)
  show ?case
  proof (cases "P key")
    case True
    then show ?thesis by simp
  next
    case False
    have "k \<noteq> key" if "find P (map fst rest) = Some k" for k
      using that False by (auto simp: find_Some_iff)
    then show ?thesis
      using 2 False by (cases "find P (map fst rest)") auto
  qed
qed

lemma find_app: "find P (xs @ ys) = (case find P xs of None \<Rightarrow> find P ys | Some x \<Rightarrow> Some x)"
  by (induction xs) auto

lemma find_keys_update:
  "find P (map fst (AList.update k v d)) =
     (case find P (map fst d) of Some k' \<Rightarrow> Some k' | None \<Rightarrow> if P k then Some k else None)"
  by (induction d) (auto split: option.splits)

lemma find_keys_dict_display: "find P (map fst (dict_display L)) = find P (map fst L)"
proof (induction L rule: rev_induct)
  case Nil
  show ?case by (simp add: dict_display_def)
next
  case (snoc x xs)
  obtain k v where x: "x = (k, v)" by (cases x)
  show ?case
    using snoc by (simp add: x dict_display_snoc dict_setitem_def find_keys_update find_app split: option.splits)
qed

lemma first_item_dict_display:
  "first_item P (dict_display L) =
     map_option (\<lambda>k. (k, the (foldl (\<lambda>acc (k', v). if k' = k then Some v else acc) None L)))
       (find P (map fst L))"
  by (simp add: first_item_find find_keys_dict_display map_of_dict_display)

text \<open>What the loop over the items finds, in terms of the table.\<close>

lemma first_item_None_iff: "first_item P d = None \<longleftrightarrow> (\<forall>k\<in>fst ` set d. \<not> P k)"
  by (induction P d rule: first_item.induct) auto

lemma first_item_Some_iff:
  "first_item P d = Some (k, v) \<longleftrightarrow>
     (\<exists>pre post. d = pre @ (k, v) # post \<and> P k \<and> (\<forall>k'\<in>fst ` set pre. \<not> P k'))"
proof (induction P d rule: first_item.induct)
  case (1 P)
  show ?case by simp
next
  case (2 P key val rest)
  show ?case
  proof (cases "P key")
    case True
    have "(\<exists>pre post. (key, val) # rest = pre @ (k, v) # post \<and> P k \<and> (\<forall>k'\<in>fst ` set pre. \<not> P k'))
            \<longleftrightarrow> (key, val) = (k, v)"
    proof
      assume "\<exists>pre post. (key, val) # rest = pre @ (k, v) # post \<and> P k \<and> (\<forall>k'\<in>fst ` set pre. \<not> P k')"
      then obtain pre post where d: "(key, val) # rest = pre @ (k, v) # post"
        and pre: "\<forall>k'\<in>fst ` set pre. \<not> P k'" by blast
      show "(key, val) = (k, v)"
      proof (cases pre)
        case Nil
        with d show ?thesis by simp
      next
        case (Cons a as)
        with d have "a = (key, val)" by simp
        with Cons pre True show ?thesis by auto
      qed
    next
      assume "(key, val) = (k, v)"
      with True have "(key, val) # rest = [] @ (k, v) # rest \<and> P k \<and> (\<forall>k'\<in>fst ` set []. \<not> P k')"
        by simp
      then show "\<exists>pre post. (key, val) # rest = pre @ (k, v) # post \<and> P k \<and> (\<forall>k'\<in>fst ` set pre. \<not> P k')"
        by blast
    qed
    with True show ?thesis by simp
  next
    case False
    have "(\<exists>pre post. (key, val) # rest = pre @ (k, v) # post \<and> P k \<and> (\<forall>k'\<in>fst ` set pre. \<not> P k'))
            \<longleftrightarrow> (\<exists>pre post. rest = pre @ (k, v) # post \<and> P k \<and> (\<forall>k'\<in>fst ` set pre. \<not> P k'))"
    proof
      assume "\<exists>pre post. (key, val) # rest = pre @ (k, v) # post \<and> P k \<and> (\<forall>k'\<in>fst ` set pre. \<not> P k')"
      then obtain pre post where d: "(key, val) # rest = pre @ (k, v) # post"
        and k: "P k" and pre: "\<forall>k'\<in>fst ` set pre. \<not> P k'" by blast
      show "\<exists>pre post. rest = pre @ (k, v) # post \<and> P k \<and> (\<forall>k'\<in>fst ` set pre. \<not> P k')"
      proof (cases pre)
        case Nil
        with d k False show ?thesis by simp
      next
        case (Cons a as)
        with d have "rest = as @ (k, v) # post" by simp
        moreover from Cons pre have "\<forall>k'\<in>fst ` set as. \<not> P k'" by simp
        ultimately show ?thesis using k by blast
      qed
    next
      assume "\<exists>pre post. rest = pre @ (k, v) # post \<and> P k \<and> (\<forall>k'\<in>fst ` set pre. \<not> P k')"
      then obtain pre post where d: "rest = pre @ (k, v) # post"
        and k: "P k" and pre: "\<forall>k'\<in>fst ` set pre. \<not> P k'" by blast
      from d have "(key, val) # rest = ((key, val) # pre) @ (k, v) # post" by simp
      moreover from pre False have "\<forall>k'\<in>fst ` set ((key, val) # pre). \<not> P k'" by simp
      ultimately show "\<exists>pre post. (key, val) # rest = pre @ (k, v) # post \<and> P k \<and> (\<forall>k'\<in>fst ` set pre. \<not> P k')"
        using k by blast
    qed
    with False 2 show ?thesis by simp
  qed
qed

subsection \<open>The logger\<close>

lemma logger_info_disabled: "\<not> info_enabled lg \<Longrightarrow> logger_info msg kwargs lg = (Inr (), lg)"
  by (simp add: logger_info_def)

lemma after_log_world: "snd (after_log w r ret) = w\<lparr>logger := snd r\<rparr>"
  by (simp add: after_log_def split: sum.split)

subsection \<open>The tiers of the translate methods\<close>

text \<open>
  \<open>translate_condition\<close> tries its tiers in order and the first that matches answers:
  the empty input, the exact match of the stripped input, the case-insensitive match,
  the substring match in either direction, and the fallback to the input as given. The
  last two go through the logger call before they return.
\<close>

lemma translate_condition_empty: "translate_condition lower w [] = (Inr [], w)"
  by (simp add: translate_condition_def)

lemma translate_condition_exact:
  "s \<noteq> [] \<Longrightarrow> map_of (condition_mapping (translator w)) (strip s) = Some v \<Longrightarrow>
   translate_condition lower w s = (Inr v, w)"
  by (simp add: translate_condition_def)

lemma translate_condition_case_insensitive:
  "s \<noteq> [] \<Longrightarrow> map_of (condition_mapping (translator w)) (strip s) = None \<Longrightarrow>
   first_item (\<lambda>key. lower key = lower (strip s)) (condition_mapping (translator w)) = Some (k, v) \<Longrightarrow>
   translate_condition lower w s = (Inr v, w)"
  by (simp add: translate_condition_def)

lemma translate_condition_partial:
  "s \<noteq> [] \<Longrightarrow> map_of (condition_mapping (translator w)) (strip s) = None \<Longrightarrow>
   first_item (\<lambda>key. lower key = lower (strip s)) (condition_mapping (translator w)) = None \<Longrightarrow>
   first_item (\<lambda>key. str_in (lower key) (lower (strip s)) \<or> str_in (lower (strip s)) (lower key))
     (condition_mapping (translator w)) = Some (k, v) \<Longrightarrow>
   translate_condition lower w s =
     after_log w (logger_info ''Partial match found for condition translation''
                    [(''original'', s), (''matched'', k), (''translated'', v)] (logger w)) v"
  by (simp add: translate_condition_def)

lemma translate_condition_no_match:
  "s \<noteq> [] \<Longrightarrow> map_of (condition_mapping (translator w)) (strip s) = None \<Longrightarrow>
   first_item (\<lambda>key. lower key = lower (strip s)) (condition_mapping (translator w)) = None \<Longrightarrow>
   first_item (\<lambda>key. str_in (lower key) (lower (strip s)) \<or> str_in (lower (strip s)) (lower key))
     (condition_mapping (translator w)) = None \<Longrightarrow>
   translate_condition lower w s =
     after_log w (logger_info ''No translation found for condition''
                    [(''original'', s), (''action'', ascii ''keeping_original'')] (logger w)) s"
  by (simp add: translate_condition_def)

text \<open>The value a call returns does not depend on the logger.\<close>

lemma translate_condition_value:
  "fst (translate_condition lower w s) = Inr r \<Longrightarrow>
   translator w' = translator w \<Longrightarrow>
   fst (translate_condition lower w' s) = Inr r' \<Longrightarrow> r' = r"
  by (auto simp: translate_condition_def after_log_def Let_def
        split: if_splits option.splits sum.splits prod.splits)

text \<open>The two other methods have the first three tiers and the fallback, and no logger call.\<close>

lemma translate_system_type_eval:
  "translate_system_type lower w s =
     (if s = [] then (Inr [], w)
      else case map_of (system_type_mapping (translator w)) (strip s) of
             Some v \<Rightarrow> (Inr v, w)
           | None \<Rightarrow>
              (case first_item (\<lambda>key. lower key = lower (strip s)) (system_type_mapping (translator w)) of
                 Some (key, val) \<Rightarrow> (Inr val, w)
               | None \<Rightarrow> (Inr s, w)))"
  by (simp add: translate_system_type_def Let_def)

lemma translate_severity_eval:
  "translate_severity lower w s =
     (if s = [] then (Inr [], w)
      else case map_of (severity_mapping (translator w)) (strip s) of
             Some v \<Rightarrow> (Inr v, w)
           | None \<Rightarrow>
              (case first_item (\<lambda>key. lower key = lower (strip s)) (severity_mapping (translator w)) of
                 Some (key, val) \<Rightarrow> (Inr val, w)
               | None \<Rightarrow> (Inr s, w)))"
  by (simp add: translate_severity_def Let_def)

lemma translate_system_type_empty: "translate_system_type lower w [] = (Inr [], w)"
  by (simp add: translate_system_type_def)

lemma translate_severity_empty: "translate_severity lower w [] = (Inr [], w)"
  by (simp add: translate_severity_def)

text \<open>Unfolding the tables of \<open>__init__\<close> for evaluation on concrete inputs.\<close>

lemmas table_eval =
  AYUSHTranslator_init_def map_of_dict_display first_item_dict_display
  condition_mapping_literal_def system_type_mapping_literal_def severity_mapping_literal_def
  ascii_def ascii_lower_def strip_def isspace_def

text \<open>
  The input \<open>xyz\<close> on the initial table: no key equals it, none equals it after
  lowering, and none contains it or is contained in it.
\<close>

lemma xyz_matches_nothing:
  "map_of (condition_mapping (translator (init_world en))) (strip (ascii ''xyz'')) = None"
  "first_item (\<lambda>key. ascii_lower key = ascii_lower (strip (ascii ''xyz'')))
     (condition_mapping (translator (init_world en))) = None"
  "first_item (\<lambda>key. str_in (ascii_lower key) (ascii_lower (strip (ascii ''xyz'')))
                   \<or> str_in (ascii_lower (strip (ascii ''xyz''))) (ascii_lower key))
     (condition_mapping (translator (init_world en))) = None"
  by (simp_all add: init_world_def table_eval)

subsection \<open>Claims\<close>

text \<open>
  C1. The claim: \<open>translate_condition\<close> tries an exact match, then a case-insensitive
  match, then a substring match in either direction, returns the input unchanged when
  nothing matches, and never raises. The tiers are as claimed (the tier lemmas above),
  but both paths that reach \<open>logger.info\<close> pass keyword arguments that the standard
  \<open>Logger\<close> does not accept: on the input \<open>xyz\<close>, which no tier matches, the call
  raises \<open>TypeError\<close> when the logger is enabled for \<open>INFO\<close>, and returns the input
  only when it is not.
\<close>

theorem unmatched_condition_raises_TypeError:
  "fst (translate_condition ascii_lower (init_world True) (ascii ''xyz'')) = Inl TypeError
   \<and> fst (translate_condition ascii_lower (init_world False) (ascii ''xyz'')) = Inr (ascii ''xyz'')"
proof -
  let ?s = "ascii ''xyz''"
  have ne: "?s \<noteq> []" by (simp add: ascii_def)
  have ex: "map_of (condition_mapping (translator (init_world en))) (strip ?s) = None" for en
    by (simp add: init_world_def table_eval)
  have ci: "first_item (\<lambda>key. ascii_lower key = ascii_lower (strip ?s))
              (condition_mapping (translator (init_world en))) = None" for en
    by (simp add: init_world_def table_eval)
  have pm: "first_item (\<lambda>key. str_in (ascii_lower key) (ascii_lower (strip ?s))
                            \<or> str_in (ascii_lower (strip ?s)) (ascii_lower key))
              (condition_mapping (translator (init_world en))) = None" for en
    by (simp add: init_world_def table_eval)
  have "fst (translate_condition ascii_lower (init_world True) ?s) = Inl TypeError"
    unfolding translate_condition_no_match [OF ne ex ci pm]
    by (simp add: after_log_def logger_info_def Logger_log_def init_world_def)
  moreover have "fst (translate_condition ascii_lower (init_world False) ?s) = Inr ?s"
    unfolding translate_condition_no_match [OF ne ex ci pm]
    by (simp add: after_log_def logger_info_def init_world_def)
  ultimately show ?thesis by simp
qed

text \<open>
  C2. The claim: an empty or whitespace-only input makes each translate operation
  return the empty string. The guard of each method tests the input before it is
  stripped, so only the empty string takes it. On three spaces \<open>translate_condition\<close>
  reaches the substring tier with the empty cleaned name, which is contained in the
  first key of the table, and returns that key's value \<open>Headache\<close>;
  \<open>translate_system_type\<close> and \<open>translate_severity\<close> return the three spaces.
\<close>

theorem translate_blank_input:
  "fst (translate_condition ascii_lower (init_world False) (ascii ''   '')) = Inr (ascii ''Headache'')
   \<and> fst (translate_system_type ascii_lower (init_world False) (ascii ''   '')) = Inr (ascii ''   '')
   \<and> fst (translate_severity ascii_lower (init_world False) (ascii ''   '')) = Inr (ascii ''   '')"
proof -
  let ?s = "ascii ''   ''" and ?w = "init_world False"
  have ne: "?s \<noteq> []" by (simp add: ascii_def)
  have st: "strip ?s = []" by (simp add: ascii_def strip_def isspace_def)
  have ex: "map_of (condition_mapping (translator ?w)) (strip ?s) = None"
    unfolding st by (simp add: init_world_def table_eval)
  have ci: "first_item (\<lambda>key. ascii_lower key = ascii_lower (strip ?s))
              (condition_mapping (translator ?w)) = None"
    unfolding st by (simp add: init_world_def table_eval)
  have pm: "first_item (\<lambda>key. str_in (ascii_lower key) (ascii_lower (strip ?s))
                            \<or> str_in (ascii_lower (strip ?s)) (ascii_lower key))
              (condition_mapping (translator ?w))
            = Some ([0x936, 0x93F, 0x930, 0x903, 0x936, 0x942, 0x932], ascii ''Headache'')"
    unfolding st by (simp add: init_world_def table_eval)
  have c: "fst (translate_condition ascii_lower ?w ?s) = Inr (ascii ''Headache'')"
    unfolding translate_condition_partial [OF ne ex ci pm]
    by (simp add: after_log_def logger_info_def init_world_def)
  have t: "fst (translate_system_type ascii_lower ?w ?s) = Inr ?s"
    unfolding translate_system_type_eval st using ne
    by (simp add: init_world_def table_eval)
  have v: "fst (translate_severity ascii_lower ?w ?s) = Inr ?s"
    unfolding translate_severity_eval st using ne
    by (simp add: init_world_def table_eval)
  from c t v show ?thesis by simp
qed

text \<open>
  C10. The translate operations are read-only on the translator: whatever the input and
  whatever the outcome, the three mapping tables after the call are the tables before it.
\<close>

theorem translate_keeps_mapping_tables:
  "translator (snd (translate_condition lower w s)) = translator w
   \<and> translator (snd (translate_system_type lower w s)) = translator w
   \<and> translator (snd (translate_severity lower w s)) = translator w"
  by (simp add: translate_condition_def translate_system_type_def translate_severity_def
        after_log_def Let_def split: option.split sum.split prod.split)

text \<open>
  C3. Only \<open>translate_condition\<close> has a substring tier. A non-blank input to
  \<open>translate_system_type\<close> or \<open>translate_severity\<close> that is no key of the table after
  stripping, and equals no key after lowering both, is returned as it was given and
  nothing is logged, whatever keys it contains or is contained in.
\<close>

theorem no_substring_tier_outside_conditions:
  "(strip s \<noteq> []
      \<and> strip s \<notin> fst ` set (system_type_mapping (translator w))
      \<and> (\<forall>key\<in>fst ` set (system_type_mapping (translator w)). lower key \<noteq> lower (strip s))
     \<longrightarrow> translate_system_type lower w s = (Inr s, w))
   \<and> (strip s \<noteq> []
      \<and> strip s \<notin> fst ` set (severity_mapping (translator w))
      \<and> (\<forall>key\<in>fst ` set (severity_mapping (translator w)). lower key \<noteq> lower (strip s))
     \<longrightarrow> translate_severity lower w s = (Inr s, w))"
proof -
  have ne: "s \<noteq> []" if "strip s \<noteq> []"
    using that by (auto simp: strip_def)
  have none: "first_item (\<lambda>key. lower key = lower (strip s)) d = None"
    if "\<forall>key\<in>fst ` set d. lower key \<noteq> lower (strip s)" for d
    using that unfolding first_item_None_iff .
  have look: "map_of d (strip s) = None" if "strip s \<notin> fst ` set d" for d :: py_dict
    using that unfolding map_of_eq_None_iff .
  show ?thesis
    by (simp add: translate_system_type_eval translate_severity_eval ne none look)
qed

text \<open>
  The hypotheses hold on the tables of \<open>__init__\<close> for inputs that contain a key: the
  key of \<open>Ayurveda\<close> followed by \<open> clinic\<close>, and the key of \<open>Moderate\<close> followed by
  \<open> pain\<close>.
\<close>

theorem no_substring_tier_outside_conditions_witness:
  "str_in [0x906, 0x92F, 0x941, 0x930, 0x94D, 0x935, 0x947, 0x926]
          ([0x906, 0x92F, 0x941, 0x930, 0x94D, 0x935, 0x947, 0x926] @ ascii '' clinic'')
   \<and> translate_system_type ascii_lower (init_world False)
        ([0x906, 0x92F, 0x941, 0x930, 0x94D, 0x935, 0x947, 0x926] @ ascii '' clinic'')
      = (Inr ([0x906, 0x92F, 0x941, 0x930, 0x94D, 0x935, 0x947, 0x926] @ ascii '' clinic''), init_world False)
   \<and> str_in [0x92E, 0x927, 0x94D, 0x92F, 0x92E]
          ([0x92E, 0x927, 0x94D, 0x92F, 0x92E] @ ascii '' pain'')
   \<and> translate_severity ascii_lower (init_world False)
        ([0x92E, 0x927, 0x94D, 0x92F, 0x92E] @ ascii '' pain'')
      = (Inr ([0x92E, 0x927, 0x94D, 0x92F, 0x92E] @ ascii '' pain''), init_world False)"
proof -
  let ?a = "[0x906, 0x92F, 0x941, 0x930, 0x94D, 0x935, 0x947, 0x926] @ ascii '' clinic''"
  let ?m = "[0x92E, 0x927, 0x94D, 0x92F, 0x92E] @ ascii '' pain''"
  let ?w = "init_world False"
  have a1: "strip ?a \<noteq> []" by (simp add: table_eval)
  have a2: "strip ?a \<notin> fst ` set (system_type_mapping (translator ?w))"
    unfolding map_of_eq_None_iff [symmetric] by (simp add: init_world_def table_eval)
  have a3: "\<forall>key\<in>fst ` set (system_type_mapping (translator ?w)). ascii_lower key \<noteq> ascii_lower (strip ?a)"
    unfolding first_item_None_iff [symmetric] by (simp add: init_world_def table_eval)
  have m1: "strip ?m \<noteq> []" by (simp add: table_eval)
  have m2: "strip ?m \<notin> fst ` set (severity_mapping (translator ?w))"
    unfolding map_of_eq_None_iff [symmetric] by (simp add: init_world_def table_eval)
  have m3: "\<forall>key\<in>fst ` set (severity_mapping (translator ?w)). ascii_lower key \<noteq> ascii_lower (strip ?m)"
    unfolding first_item_None_iff [symmetric] by (simp add: init_world_def table_eval)
  have ka: "str_in [0x906, 0x92F, 0x941, 0x930, 0x94D, 0x935, 0x947, 0x926] ?a"
    by (simp add: ascii_def)
  have km: "str_in [0x92E, 0x927, 0x94D, 0x92F, 0x92E] ?m"
    by (simp add: ascii_def)
  from no_substring_tier_outside_conditions [of ?a ?w ascii_lower] a1 a2 a3
  have ta: "translate_system_type ascii_lower ?w ?a = (Inr ?a, ?w)" by blast
  from no_substring_tier_outside_conditions [of ?m ?w ascii_lower] m1 m2 m3
  have tm: "translate_severity ascii_lower ?w ?m = (Inr ?m, ?w)" by blast
  from ka ta km tm show ?thesis by blast
qed

text \<open>
  C4. The claim: an input with no exact and no case-insensitive match that contains a
  known key is translated to that key's value. The substring loop returns at the first
  key, in table order, that is contained in the input or contains it, so an input that
  contains two keys gets the value of the earlier one only: \<open>fever and cough\<close> contains
  the key \<open>cough\<close>, mapped to \<open>Cough\<close>, and is translated to \<open>Fever\<close>.
\<close>

theorem partial_match_not_every_key:
  "strip (ascii ''fever and cough'') \<noteq> []
   \<and> map_of (condition_mapping (translator (init_world False))) (strip (ascii ''fever and cough'')) = None
   \<and> first_item (\<lambda>key. ascii_lower key = ascii_lower (strip (ascii ''fever and cough'')))
         (condition_mapping (translator (init_world False))) = None
   \<and> map_of (condition_mapping (translator (init_world False))) (ascii ''cough'') = Some (ascii ''Cough'')
   \<and> str_in (ascii_lower (ascii ''cough'')) (ascii_lower (strip (ascii ''fever and cough'')))
   \<and> fst (translate_condition ascii_lower (init_world False) (ascii ''fever and cough'')) = Inr (ascii ''Fever'')
   \<and> fst (translate_condition ascii_lower (init_world False) (ascii ''fever and cough'')) \<noteq> Inr (ascii ''Cough'')"
proof -
  let ?s = "ascii ''fever and cough''" and ?w = "init_world False"
  have ne: "?s \<noteq> []" by (simp add: ascii_def)
  have st: "strip ?s \<noteq> []" by (simp add: table_eval)
  have ex: "map_of (condition_mapping (translator ?w)) (strip ?s) = None"
    by (simp add: init_world_def table_eval)
  have ci: "first_item (\<lambda>key. ascii_lower key = ascii_lower (strip ?s))
              (condition_mapping (translator ?w)) = None"
    by (simp add: init_world_def table_eval)
  have pm: "first_item (\<lambda>key. str_in (ascii_lower key) (ascii_lower (strip ?s))
                            \<or> str_in (ascii_lower (strip ?s)) (ascii_lower key))
              (condition_mapping (translator ?w)) = Some (ascii ''fever'', ascii ''Fever'')"
    by (simp add: init_world_def table_eval)
  have co: "map_of (condition_mapping (translator ?w)) (ascii ''cough'') = Some (ascii ''Cough'')"
    by (simp add: init_world_def table_eval)
  have sub: "str_in (ascii_lower (ascii ''cough'')) (ascii_lower (strip ?s))"
    by (simp add: table_eval)
  have res: "fst (translate_condition ascii_lower ?w ?s) = Inr (ascii ''Fever'')"
    unfolding translate_condition_partial [OF ne ex ci pm]
    by (simp add: after_log_def logger_info_def init_world_def)
  have "ascii ''Fever'' \<noteq> ascii ''Cough''" by (simp add: ascii_def)
  with st ex ci co sub res show ?thesis by simp
qed

text \<open>
  C4, amended. With the logger not enabled for \<open>INFO\<close>: a non-blank input with no exact
  and no case-insensitive match is translated to the value of the first item, in table
  order, whose key is contained in the cleaned input or contains it, both lowered. The
  table is split at that item: no key before it matches.
\<close>

theorem partial_match_first_key:
  assumes quiet: "\<not> info_enabled (logger w)"
    and nonblank: "strip s \<noteq> []"
    and no_exact: "strip s \<notin> fst ` set (condition_mapping (translator w))"
    and no_ci: "\<forall>key\<in>fst ` set (condition_mapping (translator w)). lower key \<noteq> lower (strip s)"
    and split: "condition_mapping (translator w) = pre @ (k, v) # post"
    and hit: "str_in (lower k) (lower (strip s)) \<or> str_in (lower (strip s)) (lower k)"
    and first: "\<forall>key\<in>fst ` set pre.
                  \<not> (str_in (lower key) (lower (strip s)) \<or> str_in (lower (strip s)) (lower key))"
  shows "translate_condition lower w s = (Inr v, w)"
proof -
  let ?d = "condition_mapping (translator w)"
  from nonblank have ne: "s \<noteq> []" by (auto simp: strip_def)
  from no_exact have ex: "map_of ?d (strip s) = None"
    unfolding map_of_eq_None_iff .
  from no_ci have ci: "first_item (\<lambda>key. lower key = lower (strip s)) ?d = None"
    unfolding first_item_None_iff .
  have pm: "first_item (\<lambda>key. str_in (lower key) (lower (strip s)) \<or> str_in (lower (strip s)) (lower key)) ?d
            = Some (k, v)"
    unfolding first_item_Some_iff using split hit first by blast
  show ?thesis
    unfolding translate_condition_partial [OF ne ex ci pm]
    using quiet by (simp add: after_log_def logger_info_disabled)
qed

text \<open>
  On the table of \<open>__init__\<close>, which holds \<open>headache\<close> with value \<open>Headache\<close>, the input
  \<open>chronic headache\<close> is translated to \<open>Headache\<close> by the substring tier.
\<close>

theorem partial_match_first_key_witness:
  "translate_condition ascii_lower (init_world False) (ascii ''chronic headache'')
     = (Inr (ascii ''Headache''), init_world False)"
proof -
  let ?s = "ascii ''chronic headache''" and ?w = "init_world False"
  let ?d = "condition_mapping (translator ?w)"
  have quiet: "\<not> info_enabled (logger ?w)" by (simp add: init_world_def)
  have st: "strip ?s \<noteq> []" by (simp add: table_eval)
  have ex: "strip ?s \<notin> fst ` set ?d"
    unfolding map_of_eq_None_iff [symmetric] by (simp add: init_world_def table_eval)
  have ci: "\<forall>key\<in>fst ` set ?d. ascii_lower key \<noteq> ascii_lower (strip ?s)"
    unfolding first_item_None_iff [symmetric] by (simp add: init_world_def table_eval)
  have "first_item (\<lambda>key. str_in (ascii_lower key) (ascii_lower (strip ?s))
                            \<or> str_in (ascii_lower (strip ?s)) (ascii_lower key)) ?d
        = Some (ascii ''headache'', ascii ''Headache'')"
    by (simp add: init_world_def table_eval)
  then obtain pre post where split: "?d = pre @ (ascii ''headache'', ascii ''Headache'') # post"
    and hit: "str_in (ascii_lower (ascii ''headache'')) (ascii_lower (strip ?s))
              \<or> str_in (ascii_lower (strip ?s)) (ascii_lower (ascii ''headache''))"
    and first: "\<forall>key\<in>fst ` set pre.
                  \<not> (str_in (ascii_lower key) (ascii_lower (strip ?s))
                     \<or> str_in (ascii_lower (strip ?s)) (ascii_lower key))"
    unfolding first_item_Some_iff by blast
  show ?thesis
    by (rule partial_match_first_key [OF quiet st ex ci split hit first])
qed

text \<open>
  Fixed outputs. On the translator as \<open>__init__\<close> builds it, with the logger in any
  state, \<open>translate_condition\<close> of the Devanagari word for fever (U+091C U+094D U+0935
  U+0930) returns \<open>Fever\<close> and leaves the state as it was, so every further call returns
  the same. Each of the three operations returns the empty string on the empty string, in
  every state. Two calls of \<open>translate_condition\<close> on equal tables that both return,
  return the same value, and \<open>translate_system_type\<close> and \<open>translate_severity\<close> do not
  depend on the logger at all.
\<close>

lemma translation_fixed_outputs:
  "translate_condition lower \<lparr>translator = AYUSHTranslator_init, logger = lg\<rparr> [0x91C, 0x94D, 0x935, 0x930]
     = (Inr (ascii ''Fever''), \<lparr>translator = AYUSHTranslator_init, logger = lg\<rparr>)
   \<and> translate_condition lower w [] = (Inr [], w)
   \<and> translate_system_type lower w [] = (Inr [], w)
   \<and> translate_severity lower w [] = (Inr [], w)
   \<and> (translator w1 = translator w2
        \<and> fst (translate_condition lower w1 s) = Inr r1
        \<and> fst (translate_condition lower w2 s) = Inr r2 \<longrightarrow> r1 = r2)
   \<and> (translator w1 = translator w2 \<longrightarrow>
        fst (translate_system_type lower w1 s) = fst (translate_system_type lower w2 s)
        \<and> fst (translate_severity lower w1 s) = fst (translate_severity lower w2 s))"
proof -
  let ?j = "[0x91C, 0x94D, 0x935, 0x930] :: pystr"
  let ?w = "\<lparr>translator = AYUSHTranslator_init, logger = lg\<rparr>"
  have ne: "?j \<noteq> []" by simp
  have ex: "map_of (condition_mapping (translator ?w)) (strip ?j) = Some (ascii ''Fever'')"
    by (simp add: table_eval)
  have fixed: "translate_condition lower ?w ?j = (Inr (ascii ''Fever''), ?w)"
    by (rule translate_condition_exact [OF ne ex])
  have det: "r1 = r2"
    if "translator w1 = translator w2" "fst (translate_condition lower w1 s) = Inr r1"
       "fst (translate_condition lower w2 s) = Inr r2"
    using translate_condition_value [of lower w2 s r2 w1 r1] that by simp
  have others: "fst (translate_system_type lower w1 s) = fst (translate_system_type lower w2 s)
                \<and> fst (translate_severity lower w1 s) = fst (translate_severity lower w2 s)"
    if "translator w1 = translator w2"
    using that
    by (simp add: translate_system_type_eval translate_severity_eval
          split: option.split prod.split)
  from fixed det others show ?thesis
    by (simp add: translate_condition_empty translate_system_type_empty translate_severity_empty)
qed

text \<open>
  C5. The claim: translation is deterministic with fixed outputs, and two calls with the
  same input and the same mapping tables return the same result. The fixed outputs hold
  (the lemma above). The outcome of \<open>translate_condition\<close> is not a function of the input
  and the tables alone: on the same tables and the same input \<open>xyz\<close>, the call raises
  \<open>TypeError\<close> when the logger is enabled for \<open>INFO\<close> and returns \<open>xyz\<close> when it is not,
  because the no-match path goes through the logger call.
\<close>

theorem same_tables_different_outcome:
  "translator (init_world True) = translator (init_world False)
   \<and> fst (translate_condition ascii_lower (init_world True) (ascii ''xyz'')) = Inl TypeError
   \<and> fst (translate_condition ascii_lower (init_world False) (ascii ''xyz'')) = Inr (ascii ''xyz'')
   \<and> fst (translate_condition ascii_lower (init_world True) (ascii ''xyz''))
       \<noteq> fst (translate_condition ascii_lower (init_world False) (ascii ''xyz''))"
proof -
  let ?s = "ascii ''xyz''"
  have ne: "?s \<noteq> []" by (simp add: ascii_def)
  have same: "translator (init_world True) = translator (init_world False)"
    by (simp add: init_world_def)
  have on: "fst (translate_condition ascii_lower (init_world True) ?s) = Inl TypeError"
    unfolding translate_condition_no_match [OF ne xyz_matches_nothing]
    by (simp add: after_log_def logger_info_def Logger_log_def init_world_def)
  have off: "fst (translate_condition ascii_lower (init_world False) ?s) = Inr ?s"
    unfolding translate_condition_no_match [OF ne xyz_matches_nothing]
    by (simp add: after_log_def logger_info_def init_world_def)
  from same on off show ?thesis by simp
qed

text \<open>
  C6. Registering a mapping. For a native term \<open>n\<close> that is non-empty and equal to its
  stripped form, and any English term \<open>e\<close>: in the state that
  \<open>add_condition_mapping(n, e)\<close> leaves, the items of the condition table whose key is
  not \<open>n\<close> are the items it had, in the same order, the two other tables are as before,
  \<open>n\<close> is a key with value \<open>e\<close>, and \<open>translate_condition(n)\<close> returns \<open>e\<close> from the
  exact-match tier without touching the state. The same holds for
  \<open>add_system_type_mapping\<close> and \<open>add_severity_mapping\<close> on their tables. The
  assignment precedes the logging call of the method, so this is the state after the
  call also when that call raises.
\<close>

theorem added_mapping_visible_and_framed:
  assumes trimmed: "strip n = n" and nonblank: "n \<noteq> []"
  shows
    "(let w' = snd (add_condition_mapping w n e) in
        filter (\<lambda>(k, v). k \<noteq> n) (condition_mapping (translator w'))
          = filter (\<lambda>(k, v). k \<noteq> n) (condition_mapping (translator w))
        \<and> system_type_mapping (translator w') = system_type_mapping (translator w)
        \<and> severity_mapping (translator w') = severity_mapping (translator w)
        \<and> map_of (condition_mapping (translator w')) n = Some e
        \<and> translate_condition lower w' n = (Inr e, w'))
     \<and> (let w' = snd (add_system_type_mapping w n e) in
        filter (\<lambda>(k, v). k \<noteq> n) (system_type_mapping (translator w'))
          = filter (\<lambda>(k, v). k \<noteq> n) (system_type_mapping (translator w))
        \<and> condition_mapping (translator w') = condition_mapping (translator w)
        \<and> severity_mapping (translator w') = severity_mapping (translator w)
        \<and> map_of (system_type_mapping (translator w')) n = Some e
        \<and> translate_system_type lower w' n = (Inr e, w'))
     \<and> (let w' = snd (add_severity_mapping w n e) in
        filter (\<lambda>(k, v). k \<noteq> n) (severity_mapping (translator w'))
          = filter (\<lambda>(k, v). k \<noteq> n) (severity_mapping (translator w))
        \<and> condition_mapping (translator w') = condition_mapping (translator w)
        \<and> system_type_mapping (translator w') = system_type_mapping (translator w)
        \<and> map_of (severity_mapping (translator w')) n = Some e
        \<and> translate_severity lower w' n = (Inr e, w'))"
proof -
  have c: "translate_condition lower w' n = (Inr e, w')"
    if "map_of (condition_mapping (translator w')) n = Some e" for w'
    using translate_condition_exact [of n w' e lower] that nonblank trimmed by simp
  have t: "translate_system_type lower w' n = (Inr e, w')"
    if "map_of (system_type_mapping (translator w')) n = Some e" for w'
    using that nonblank trimmed by (simp add: translate_system_type_eval)
  have v: "translate_severity lower w' n = (Inr e, w')"
    if "map_of (severity_mapping (translator w')) n = Some e" for w'
    using that nonblank trimmed by (simp add: translate_severity_eval)
  have "map_of (condition_mapping (translator (snd (add_condition_mapping w n e)))) n = Some e"
    by (simp add: add_condition_mapping_def after_log_world dict_setitem_lookup Let_def)
  moreover have "map_of (system_type_mapping (translator (snd (add_system_type_mapping w n e)))) n = Some e"
    by (simp add: add_system_type_mapping_def after_log_world dict_setitem_lookup Let_def)
  moreover have "map_of (severity_mapping (translator (snd (add_severity_mapping w n e)))) n = Some e"
    by (simp add: add_severity_mapping_def after_log_world dict_setitem_lookup Let_def)
  ultimately show ?thesis
    using c t v
    by (simp add: Let_def)
       (simp add: add_condition_mapping_def add_system_type_mapping_def add_severity_mapping_def
          after_log_world dict_setitem_others Let_def)
qed

text \<open>
  Registering \<open>sardi\<close> on the initial translator, with the logger enabled for \<open>INFO\<close>: the
  call raises after the assignment, and the next translation sees the new item.
\<close>

theorem added_mapping_visible_and_framed_witness:
  "translate_condition ascii_lower
     (snd (add_condition_mapping (init_world True) (ascii ''sardi'') (ascii ''Common Cold'')))
     (ascii ''sardi'')
   = (Inr (ascii ''Common Cold''),
      snd (add_condition_mapping (init_world True) (ascii ''sardi'') (ascii ''Common Cold'')))
   \<and> fst (add_condition_mapping (init_world True) (ascii ''sardi'') (ascii ''Common Cold'')) = Inl TypeError"
proof -
  have s: "strip (ascii ''sardi'') = ascii ''sardi''" by (simp add: table_eval)
  have n: "ascii ''sardi'' \<noteq> []" by (simp add: ascii_def)
  have 1: "translate_condition ascii_lower
     (snd (add_condition_mapping (init_world True) (ascii ''sardi'') (ascii ''Common Cold'')))
     (ascii ''sardi'')
   = (Inr (ascii ''Common Cold''),
      snd (add_condition_mapping (init_world True) (ascii ''sardi'') (ascii ''Common Cold'')))"
    using added_mapping_visible_and_framed [OF s n, of "init_world True" "ascii ''Common Cold''" ascii_lower]
    by (simp add: Let_def)
  have 2: "fst (add_condition_mapping (init_world True) (ascii ''sardi'') (ascii ''Common Cold'')) = Inl TypeError"
    by (simp add: add_condition_mapping_def after_log_def logger_info_def Logger_log_def init_world_def Let_def)
  show ?thesis using 1 2 by simp
qed

text \<open>
  C7. The claim: every translation that is not an exact hit (case-insensitive match,
  partial match, no-match fallback) is recorded, and an exact hit is not. Only the
  partial-match and the no-match path of \<open>translate_condition\<close> call the logger. With the
  logger enabled for \<open>INFO\<close> and nothing recorded yet, \<open>HEADACHE\<close> is translated to
  \<open>Headache\<close> by the case-insensitive tier and \<open>translate_system_type\<close> falls back to its
  input \<open>Ayurveda\<close>, and nothing has been recorded after either call.
\<close>

theorem case_insensitive_match_not_recorded:
  "info_enabled (logger (init_world True))
   \<and> recorded (logger (init_world True)) = []
   \<and> map_of (condition_mapping (translator (init_world True))) (strip (ascii ''HEADACHE'')) = None
   \<and> fst (translate_condition ascii_lower (init_world True) (ascii ''HEADACHE'')) = Inr (ascii ''Headache'')
   \<and> recorded (logger (snd (translate_condition ascii_lower (init_world True) (ascii ''HEADACHE'')))) = []
   \<and> fst (translate_system_type ascii_lower (init_world True) (ascii ''Ayurveda'')) = Inr (ascii ''Ayurveda'')
   \<and> recorded (logger (snd (translate_system_type ascii_lower (init_world True) (ascii ''Ayurveda'')))) = []"
proof -
  let ?s = "ascii ''HEADACHE''" and ?w = "init_world True"
  have ne: "?s \<noteq> []" by (simp add: ascii_def)
  have ex: "map_of (condition_mapping (translator ?w)) (strip ?s) = None"
    by (simp add: init_world_def table_eval)
  have ci: "first_item (\<lambda>key. ascii_lower key = ascii_lower (strip ?s))
              (condition_mapping (translator ?w)) = Some (ascii ''headache'', ascii ''Headache'')"
    by (simp add: init_world_def table_eval)
  have c: "translate_condition ascii_lower ?w ?s = (Inr (ascii ''Headache''), ?w)"
    by (rule translate_condition_case_insensitive [OF ne ex ci])
  have t: "translate_system_type ascii_lower ?w (ascii ''Ayurveda'') = (Inr (ascii ''Ayurveda''), ?w)"
    unfolding translate_system_type_eval by (simp add: init_world_def table_eval)
  have l: "info_enabled (logger ?w) \<and> recorded (logger ?w) = []"
    by (simp add: init_world_def)
  from ex l show ?thesis unfolding c t by simp
qed

text \<open>
  C7, amended. \<open>translate_system_type\<close> and \<open>translate_severity\<close> return a value and
  leave the state, logger included, as it was, on every input. So does
  \<open>translate_condition\<close> on the empty input, on an exact hit and on a case-insensitive
  hit. On every other input \<open>translate_condition\<close> goes through the logger: when some key
  is contained in the cleaned input or contains it, its outcome is that of the call
  \<open>logger.info("Partial match found for condition translation", original, matched,
  translated)\<close> for the first such key, followed by the return of that key's value;
  otherwise it is that of \<open>logger.info("No translation found for condition", original,
  action)\<close>, followed by the return of the input.
\<close>

theorem logger_called_only_on_partial_and_no_match:
  "(\<exists>v. translate_system_type lower w s = (Inr v, w))
   \<and> (\<exists>v. translate_severity lower w s = (Inr v, w))
   \<and> (s = []
        \<or> strip s \<in> fst ` set (condition_mapping (translator w))
        \<or> (\<exists>key\<in>fst ` set (condition_mapping (translator w)). lower key = lower (strip s))
       \<longrightarrow> (\<exists>v. translate_condition lower w s = (Inr v, w)))
   \<and> (s \<noteq> []
        \<and> strip s \<notin> fst ` set (condition_mapping (translator w))
        \<and> (\<forall>key\<in>fst ` set (condition_mapping (translator w)). lower key \<noteq> lower (strip s))
       \<longrightarrow> (case first_item (\<lambda>key. str_in (lower key) (lower (strip s))
                                   \<or> str_in (lower (strip s)) (lower key))
                   (condition_mapping (translator w)) of
              Some (key, val) \<Rightarrow>
                translate_condition lower w s =
                  after_log w
                    (logger_info ''Partial match found for condition translation''
                       [(''original'', s), (''matched'', key), (''translated'', val)] (logger w))
                    val
            | None \<Rightarrow>
                translate_condition lower w s =
                  after_log w
                    (logger_info ''No translation found for condition''
                       [(''original'', s), (''action'', ascii ''keeping_original'')] (logger w))
                    s))"
proof -
  let ?d = "condition_mapping (translator w)"
  let ?ci = "\<lambda>key. lower key = lower (strip s)"
  let ?pm = "\<lambda>key. str_in (lower key) (lower (strip s)) \<or> str_in (lower (strip s)) (lower key)"
  have a: "\<exists>v. translate_system_type lower w s = (Inr v, w)"
    by (simp add: translate_system_type_eval split: option.split prod.split)
  have b: "\<exists>v. translate_severity lower w s = (Inr v, w)"
    by (simp add: translate_severity_eval split: option.split prod.split)
  have c: "\<exists>v. translate_condition lower w s = (Inr v, w)"
    if h: "s = [] \<or> strip s \<in> fst ` set ?d \<or> (\<exists>key\<in>fst ` set ?d. lower key = lower (strip s))"
  proof (cases "s = []")
    case True
    then show ?thesis by (simp add: translate_condition_empty)
  next
    case ne: False
    show ?thesis
    proof (cases "map_of ?d (strip s)")
      case (Some v)
      from translate_condition_exact [OF ne Some] show ?thesis by blast
    next
      case None
      then have "strip s \<notin> fst ` set ?d" unfolding map_of_eq_None_iff .
      with h ne have "\<not> (\<forall>key\<in>fst ` set ?d. \<not> lower key = lower (strip s))" by blast
      then have "first_item ?ci ?d \<noteq> None"
        unfolding first_item_None_iff .
      then obtain k v where "first_item ?ci ?d = Some (k, v)"
        by (cases "first_item ?ci ?d") auto
      from translate_condition_case_insensitive [OF ne None this] show ?thesis by blast
    qed
  qed
  have d: "case first_item ?pm ?d of
              Some (key, val) \<Rightarrow>
                translate_condition lower w s =
                  after_log w
                    (logger_info ''Partial match found for condition translation''
                       [(''original'', s), (''matched'', key), (''translated'', val)] (logger w))
                    val
            | None \<Rightarrow>
                translate_condition lower w s =
                  after_log w
                    (logger_info ''No translation found for condition''
                       [(''original'', s), (''action'', ascii ''keeping_original'')] (logger w))
                    s"
    if ne: "s \<noteq> []" and nex: "strip s \<notin> fst ` set ?d"
      and nci: "\<forall>key\<in>fst ` set ?d. lower key \<noteq> lower (strip s)"
  proof -
    from nex have ex: "map_of ?d (strip s) = None" unfolding map_of_eq_None_iff .
    from nci have ci: "first_item ?ci ?d = None" unfolding first_item_None_iff .
    show ?thesis
    proof (cases "first_item ?pm ?d")
      case None
      from translate_condition_no_match [OF ne ex ci None] None show ?thesis by simp
    next
      case (Some kv)
      obtain k v where kv: "kv = (k, v)" by (cases kv)
      from Some kv have pm: "first_item ?pm ?d = Some (k, v)" by simp
      from translate_condition_partial [OF ne ex ci pm] pm show ?thesis by simp
    qed
  qed
  from a b c d show ?thesis by blast
qed

text \<open>
  On the initial table with the logger enabled for \<open>INFO\<close>: \<open>HEADACHE\<close> is a
  case-insensitive hit and returns with the state untouched; \<open>xyz\<close> matches nothing, its
  outcome is that of the no-match logger call, and it is not the plain return of \<open>xyz\<close>.
\<close>

theorem logger_called_only_on_partial_and_no_match_witness:
  "(\<exists>key\<in>fst ` set (condition_mapping (translator (init_world True))).
       ascii_lower key = ascii_lower (strip (ascii ''HEADACHE'')))
   \<and> (\<exists>v. translate_condition ascii_lower (init_world True) (ascii ''HEADACHE'') = (Inr v, init_world True))
   \<and> translate_condition ascii_lower (init_world True) (ascii ''xyz'') =
        after_log (init_world True)
          (logger_info ''No translation found for condition''
             [(''original'', ascii ''xyz''), (''action'', ascii ''keeping_original'')]
             (logger (init_world True)))
          (ascii ''xyz'')
   \<and> translate_condition ascii_lower (init_world True) (ascii ''xyz'')
        \<noteq> (Inr (ascii ''xyz''), init_world True)"
proof -
  let ?h = "ascii ''HEADACHE''" and ?x = "ascii ''xyz''" and ?w = "init_world True"
  let ?d = "condition_mapping (translator ?w)"
  have "first_item (\<lambda>key. ascii_lower key = ascii_lower (strip ?h)) ?d \<noteq> None"
    by (simp add: init_world_def table_eval)
  then have "\<not> (\<forall>key\<in>fst ` set ?d. \<not> ascii_lower key = ascii_lower (strip ?h))"
    unfolding first_item_None_iff .
  then have h: "\<exists>key\<in>fst ` set ?d. ascii_lower key = ascii_lower (strip ?h)"
    by blast
  with logger_called_only_on_partial_and_no_match [of ascii_lower ?w ?h]
  have 1: "\<exists>v. translate_condition ascii_lower ?w ?h = (Inr v, ?w)" by blast
  have ne: "?x \<noteq> []" by (simp add: ascii_def)
  have nex: "strip ?x \<notin> fst ` set ?d"
    unfolding map_of_eq_None_iff [symmetric] by (rule xyz_matches_nothing)
  have nci: "\<forall>key\<in>fst ` set ?d. ascii_lower key \<noteq> ascii_lower (strip ?x)"
    unfolding first_item_None_iff [symmetric] by (rule xyz_matches_nothing)
  from logger_called_only_on_partial_and_no_match [of ascii_lower ?w ?x] ne nex nci
  have 2: "translate_condition ascii_lower ?w ?x =
        after_log ?w
          (logger_info ''No translation found for condition''
             [(''original'', ?x), (''action'', ascii ''keeping_original'')] (logger ?w)) ?x"
    by (simp add: xyz_matches_nothing)
  have 3: "translate_condition ascii_lower ?w ?x \<noteq> (Inr ?x, ?w)"
    unfolding 2 by (simp add: after_log_def logger_info_def Logger_log_def init_world_def)
  from h 1 2 3 show ?thesis by blast
qed

subsection \<open>The scenario row\<close>

lemma scenario_translations:
  "translate_condition lower \<lparr>translator = AYUSHTranslator_init, logger = lg\<rparr>
       [0x905, 0x928, 0x93F, 0x926, 0x94D, 0x930, 0x93E]
     = (Inr (ascii ''Insomnia''), \<lparr>translator = AYUSHTranslator_init, logger = lg\<rparr>)"
  "translate_system_type lower \<lparr>translator = AYUSHTranslator_init, logger = lg\<rparr>
       [0x906, 0x92F, 0x941, 0x930, 0x94D, 0x935, 0x947, 0x926]
     = (Inr (ascii ''Ayurveda''), \<lparr>translator = AYUSHTranslator_init, logger = lg\<rparr>)"
  "translate_severity lower \<lparr>translator = AYUSHTranslator_init, logger = lg\<rparr>
       [0x92E, 0x927, 0x94D, 0x92F, 0x92E]
     = (Inr (ascii ''Moderate''), \<lparr>translator = AYUSHTranslator_init, logger = lg\<rparr>)"
proof -
  let ?w = "\<lparr>translator = AYUSHTranslator_init, logger = lg\<rparr>"
  let ?c = "[0x905, 0x928, 0x93F, 0x926, 0x94D, 0x930, 0x93E] :: pystr"
  have ne: "?c \<noteq> []" by simp
  have ex: "map_of (condition_mapping (translator ?w)) (strip ?c) = Some (ascii ''Insomnia'')"
    by (simp add: table_eval)
  show "translate_condition lower ?w ?c = (Inr (ascii ''Insomnia''), ?w)"
    by (rule translate_condition_exact [OF ne ex])
  show "translate_system_type lower ?w [0x906, 0x92F, 0x941, 0x930, 0x94D, 0x935, 0x947, 0x926]
          = (Inr (ascii ''Ayurveda''), ?w)"
    unfolding translate_system_type_eval by (simp add: table_eval)
  show "translate_severity lower ?w [0x92E, 0x927, 0x94D, 0x92F, 0x92E]
          = (Inr (ascii ''Moderate''), ?w)"
    unfolding translate_severity_eval by (simp add: table_eval)
qed

lemma scenario_strips:
  "strip (ascii ''PAT001'') = ascii ''PAT001''"
  "strip (ascii ''TM2.A01.01'') = ascii ''TM2.A01.01''"
  "strip (ascii ''DOC123'') = ascii ''DOC123''"
  "strip [0x905, 0x928, 0x93F, 0x926, 0x94D, 0x930, 0x93E] = [0x905, 0x928, 0x93F, 0x926, 0x94D, 0x930, 0x93E]"
  "strip [0x906, 0x92F, 0x941, 0x930, 0x94D, 0x935, 0x947, 0x926] = [0x906, 0x92F, 0x941, 0x930, 0x94D, 0x935, 0x947, 0x926]"
  "strip [0x92E, 0x927, 0x94D, 0x92F, 0x92E] = [0x92E, 0x927, 0x94D, 0x92F, 0x92E]"
  by (simp_all add: ascii_def strip_def isspace_def)

lemma scenario_nonblank:
  "ascii ''PAT001'' \<noteq> []" "ascii ''TM2.A01.01'' \<noteq> []"
  by (simp_all add: ascii_def)

text \<open>
  C8. The end-to-end scenario. Two copies of the row \<open>PAT001\<close>, \<open>TM2.A01.01\<close>, the
  Devanagari terms for insomnia, Ayurveda and moderate, \<open>2024-01-15\<close>, \<open>DOC123\<close>, on the
  translator as \<open>__init__\<close> builds it and with any date parser that accepts
  \<open>2024-01-15\<close>: the batch yields one patient \<open>PAT001\<close> and one condition with
  \<open>condition_name\<close> \<open>Insomnia\<close>, \<open>system_type\<close> \<open>Ayurveda\<close> and \<open>severity\<close> \<open>Moderate\<close>, one
  duplicate removed and no invalid record, and leaves the state as it was. The three
  terms are translated by exact match, to \<open>Insomnia\<close>, \<open>Ayurveda\<close> and \<open>Moderate\<close>.
\<close>

theorem end_to_end_scenario:
  assumes date: "parse_date (ascii ''2024-01-15'') = Some d"
  shows "(\<exists>p c. run_batch lower parse_date now new_condition_id
                 \<lparr>translator = AYUSHTranslator_init, logger = lg\<rparr> [scenario_row, scenario_row]
               = (Inr (([p], [c]), \<lparr>duplicates_removed = 1, invalid_records_removed = 0\<rparr>),
                  \<lparr>translator = AYUSHTranslator_init, logger = lg\<rparr>)
           \<and> EMRPatient.patient_id p = ascii ''PAT001''
           \<and> EMRCondition.patient_id c = ascii ''PAT001''
           \<and> tm2_code c = ascii ''TM2.A01.01''
           \<and> condition_name c = ascii ''Insomnia''
           \<and> system_type c = ascii ''Ayurveda''
           \<and> severity c = ascii ''Moderate''
           \<and> diagnosis_date c = d
           \<and> EMRCondition.practitioner_id c = ascii ''DOC123'')
         \<and> fst (translate_condition lower \<lparr>translator = AYUSHTranslator_init, logger = lg\<rparr>
                  (raw_condition_name scenario_row)) = Inr (ascii ''Insomnia'')
         \<and> fst (translate_system_type lower \<lparr>translator = AYUSHTranslator_init, logger = lg\<rparr>
                  (raw_system_type scenario_row)) = Inr (ascii ''Ayurveda'')
         \<and> fst (translate_severity lower \<lparr>translator = AYUSHTranslator_init, logger = lg\<rparr>
                  (raw_severity scenario_row)) = Inr (ascii ''Moderate'')"
proof -
  let ?w = "\<lparr>translator = AYUSHTranslator_init, logger = lg\<rparr>"
  have valid: "validate_record parse_date scenario_row = Some d"
    by (simp add: validate_record_def scenario_row_def scenario_strips scenario_nonblank date)
  have kept: "foldl (clean_step parse_date)
                ([], \<lparr>duplicates_removed = 0, invalid_records_removed = 0\<rparr>)
                [scenario_row, scenario_row]
              = ([(scenario_row, d)], \<lparr>duplicates_removed = 1, invalid_records_removed = 0\<rparr>)"
    by (simp add: clean_step_def valid)
  have norm: "normalize_record lower ?w (scenario_row, d)
              = (Inr \<lparr>cleaned_patient_id = ascii ''PAT001'',
                      cleaned_tm2_code = ascii ''TM2.A01.01'',
                      cleaned_condition_name = ascii ''Insomnia'',
                      cleaned_system_type = ascii ''Ayurveda'',
                      cleaned_severity = ascii ''Moderate'',
                      cleaned_diagnosis_date = d,
                      cleaned_practitioner_id = ascii ''DOC123''\<rparr>, ?w)"
    by (simp add: normalize_record_def scenario_row_def scenario_strips scenario_translations)
  have cl: "clean lower parse_date ?w [scenario_row, scenario_row]
            = (Inr ([\<lparr>cleaned_patient_id = ascii ''PAT001'',
                      cleaned_tm2_code = ascii ''TM2.A01.01'',
                      cleaned_condition_name = ascii ''Insomnia'',
                      cleaned_system_type = ascii ''Ayurveda'',
                      cleaned_severity = ascii ''Moderate'',
                      cleaned_diagnosis_date = d,
                      cleaned_practitioner_id = ascii ''DOC123''\<rparr>],
                    \<lparr>duplicates_removed = 1, invalid_records_removed = 0\<rparr>), ?w)"
    unfolding clean_def kept by (simp add: norm)
  have graph: "\<exists>p c. run_batch lower parse_date now new_condition_id ?w [scenario_row, scenario_row]
               = (Inr (([p], [c]), \<lparr>duplicates_removed = 1, invalid_records_removed = 0\<rparr>), ?w)
           \<and> EMRPatient.patient_id p = ascii ''PAT001''
           \<and> EMRCondition.patient_id c = ascii ''PAT001''
           \<and> tm2_code c = ascii ''TM2.A01.01''
           \<and> condition_name c = ascii ''Insomnia''
           \<and> system_type c = ascii ''Ayurveda''
           \<and> severity c = ascii ''Moderate''
           \<and> diagnosis_date c = d
           \<and> EMRCondition.practitioner_id c = ascii ''DOC123''"
    unfolding run_batch_def cl
    by (simp add: convert_def EMRPatient_new_def EMRCondition_new_def)
  have terms:
    "fst (translate_condition lower ?w (raw_condition_name scenario_row)) = Inr (ascii ''Insomnia'')"
    "fst (translate_system_type lower ?w (raw_system_type scenario_row)) = Inr (ascii ''Ayurveda'')"
    "fst (translate_severity lower ?w (raw_severity scenario_row)) = Inr (ascii ''Moderate'')"
    by (simp_all add: scenario_row_def scenario_translations)
  from graph terms show ?thesis by blast
qed

text \<open>
  The scenario with a parser that accepts only \<open>2024-01-15\<close>, dates as year, month and
  day, and the logger enabled for \<open>INFO\<close>.
\<close>

theorem end_to_end_scenario_witness:
  "\<exists>p c. run_batch ascii_lower
            (\<lambda>s. if s = ascii ''2024-01-15'' then Some (2024 :: nat, 1 :: nat, 15 :: nat) else None)
            (2024, 1, 16) (\<lambda>r. cleaned_patient_id r @ cleaned_tm2_code r)
            (init_world True) [scenario_row, scenario_row]
          = (Inr (([p], [c]), \<lparr>duplicates_removed = 1, invalid_records_removed = 0\<rparr>), init_world True)
        \<and> EMRPatient.patient_id p = ascii ''PAT001''
        \<and> condition_name c = ascii ''Insomnia''
        \<and> system_type c = ascii ''Ayurveda''
        \<and> severity c = ascii ''Moderate''
        \<and> diagnosis_date c = (2024, 1, 15)"
proof -
  let ?parse = "\<lambda>s. if s = ascii ''2024-01-15'' then Some (2024 :: nat, 1 :: nat, 15 :: nat) else None"
  have date: "?parse (ascii ''2024-01-15'') = Some (2024, 1, 15)" by simp
  from end_to_end_scenario [of ?parse "(2024, 1, 15)" ascii_lower "(2024, 1, 16)"
         "\<lambda>r. cleaned_patient_id r @ cleaned_tm2_code r" "\<lparr>info_enabled = True, recorded = []\<rparr>", OF date]
  show ?thesis unfolding init_world_def by blast
qed

text \<open>
  C9. Defaults of the models. An \<open>EMRCondition\<close> constructed without the keyword
  \<open>status\<close> has status \<open>active\<close>, and an \<open>EMREncounter\<close> constructed without the keyword
  \<open>encounter_type\<close> has type \<open>traditional_medicine_consultation\<close>, whatever the other
  arguments are.
\<close>

theorem model_defaults:
  "status (EMRCondition_new now cid pid name icd tm2 sys sev ddate pract None notes_kw created)
     = ascii ''active''
   \<and> encounter_type (EMREncounter_new now eid pid None edate pract loc conds obs created')
     = ascii ''traditional_medicine_consultation''"
  by (simp add: EMRCondition_new_def EMREncounter_new_def)

end
